theory Spec2Isabelle
  imports Complex_Main
begin

section \<open>JavaScript numbers\<close>

text \<open>
  A JavaScript Number is modelled as an exact real or NaN.  Arithmetic on finite values
  is the real arithmetic (IEEE-754 rounding, overflow and the two infinities are outside
  the model); NaN is absorbing for the arithmetic operations and every comparison that
  involves NaN is false, as in ECMAScript.  Where the last digits of a result matter, the
  calculation is given with the rounding of binary64 as well (the distance, below).
\<close>

datatype number = Fin real | NaN

instantiation number :: "{plus, minus, times, inverse, ord}"
begin

definition plus_number :: "number \<Rightarrow> number \<Rightarrow> number" where
  "plus_number a b = (case a of Fin u \<Rightarrow> (case b of Fin v \<Rightarrow> Fin (u + v) | NaN \<Rightarrow> NaN) | NaN \<Rightarrow> NaN)"

definition minus_number :: "number \<Rightarrow> number \<Rightarrow> number" where
  "minus_number a b = (case a of Fin u \<Rightarrow> (case b of Fin v \<Rightarrow> Fin (u - v) | NaN \<Rightarrow> NaN) | NaN \<Rightarrow> NaN)"

definition times_number :: "number \<Rightarrow> number \<Rightarrow> number" where
  "times_number a b = (case a of Fin u \<Rightarrow> (case b of Fin v \<Rightarrow> Fin (u * v) | NaN \<Rightarrow> NaN) | NaN \<Rightarrow> NaN)"

text \<open>
  A division by zero gives an infinity or NaN in JavaScript; without infinities the model
  gives NaN.  Every divisor in the modelled code is a non-zero constant.
\<close>

definition divide_number :: "number \<Rightarrow> number \<Rightarrow> number" where
  "divide_number a b =
     (case a of Fin u \<Rightarrow> (case b of Fin v \<Rightarrow> (if v = 0 then NaN else Fin (u / v)) | NaN \<Rightarrow> NaN)
      | NaN \<Rightarrow> NaN)"

definition inverse_number :: "number \<Rightarrow> number" where
  "inverse_number b = (case b of Fin v \<Rightarrow> (if v = 0 then NaN else Fin (inverse v)) | NaN \<Rightarrow> NaN)"

definition less_number :: "number \<Rightarrow> number \<Rightarrow> bool" where
  "less_number a b = (case a of Fin u \<Rightarrow> (case b of Fin v \<Rightarrow> u < v | NaN \<Rightarrow> False) | NaN \<Rightarrow> False)"

definition less_eq_number :: "number \<Rightarrow> number \<Rightarrow> bool" where
  "less_eq_number a b = (case a of Fin u \<Rightarrow> (case b of Fin v \<Rightarrow> u \<le> v | NaN \<Rightarrow> False) | NaN \<Rightarrow> False)"

instance ..

end

definition isFinite :: "number \<Rightarrow> bool" where
  "isFinite a = (case a of Fin u \<Rightarrow> True | NaN \<Rightarrow> False)"

text \<open>The functions of the built-in \<open>Math\<close> object that the program calls.\<close>

definition Math_sqrt :: "number \<Rightarrow> number" where
  "Math_sqrt a = (case a of Fin u \<Rightarrow> (if u < 0 then NaN else Fin (sqrt u)) | NaN \<Rightarrow> NaN)"

definition Math_min :: "number \<Rightarrow> number \<Rightarrow> number" where
  "Math_min a b = (case a of Fin u \<Rightarrow> (case b of Fin v \<Rightarrow> Fin (min u v) | NaN \<Rightarrow> NaN) | NaN \<Rightarrow> NaN)"

definition Math_max :: "number \<Rightarrow> number \<Rightarrow> number" where
  "Math_max a b = (case a of Fin u \<Rightarrow> (case b of Fin v \<Rightarrow> Fin (max u v) | NaN \<Rightarrow> NaN) | NaN \<Rightarrow> NaN)"

definition Math_sin :: "number \<Rightarrow> number" where
  "Math_sin a = (case a of Fin u \<Rightarrow> Fin (sin u) | NaN \<Rightarrow> NaN)"

definition Math_cos :: "number \<Rightarrow> number" where
  "Math_cos a = (case a of Fin u \<Rightarrow> Fin (cos u) | NaN \<Rightarrow> NaN)"

definition Math_PI :: number where
  "Math_PI = Fin pi"

text \<open>
  \<open>Math.atan2(y, x)\<close>: the angle of the point \<open>(x, y)\<close>, in \<open>(-\<pi>, \<pi>]\<close>
  (signed zeros are not distinguished).
\<close>

definition atan2 :: "real \<Rightarrow> real \<Rightarrow> real" where
  "atan2 v u =
     (if 0 < u then arctan (v / u)
      else if u < 0 then (if 0 \<le> v then arctan (v / u) + pi else arctan (v / u) - pi)
      else if 0 < v then pi / 2
      else if v < 0 then - (pi / 2)
      else 0)"

definition Math_atan2 :: "number \<Rightarrow> number \<Rightarrow> number" where
  "Math_atan2 a b = (case a of Fin v \<Rightarrow> (case b of Fin u \<Rightarrow> Fin (atan2 v u) | NaN \<Rightarrow> NaN) | NaN \<Rightarrow> NaN)"

text \<open>
  The remainder operator \<open>%\<close>: the result has the sign of the dividend (truncated
  division), and is NaN for a zero divisor.
\<close>

definition trunc :: "real \<Rightarrow> int" where
  "trunc r = (if 0 \<le> r then \<lfloor>r\<rfloor> else \<lceil>r\<rceil>)"

definition remainder :: "number \<Rightarrow> number \<Rightarrow> number" where
  "remainder a b =
     (case a of Fin u \<Rightarrow> (case b of Fin v \<Rightarrow> (if v = 0 then NaN else Fin (u - v * of_int (trunc (u / v)))) | NaN \<Rightarrow> NaN)
      | NaN \<Rightarrow> NaN)"

text \<open>\<open>a[i]\<close> on an array: \<open>undefined\<close> (here \<open>None\<close>) out of range.\<close>

definition index :: "'a list \<Rightarrow> nat \<Rightarrow> 'a option" where
  "index xs i = (if i < length xs then Some (xs ! i) else None)"

section \<open>HandTracker\<close>

text \<open>
  The class \<open>HandTracker\<close> of \<open>modules/HandTracker.js\<close>; the line numbers are
  those of the file.  A landmark is an object with the coordinates \<open>x\<close> and \<open>y\<close>; a detection result
  carries \<open>multiHandLandmarks\<close>, absent (\<open>None\<close>) or an array with one landmark array
  for each detected hand.
\<close>

datatype landmark = Landmark (lm_x: number) (lm_y: number)

record results =
  multiHandLandmarks :: "landmark list list option"

text \<open>The payload of the \<open>handUpdate\<close> event.\<close>

record handData =
  detected :: bool
  distance :: number
  rotation :: number

record handState =
  hs_detected :: bool
  hs_distance :: number
  hs_rotation :: number
  hs_rawLandmarks :: "landmark list option"

record handTracker =
  handState :: handState
  smoothedDistance :: number
  smoothedRotation :: number
  smoothingFactor :: number
  showSkeleton :: bool

text \<open>The constructor (lines 12-37).\<close>

definition newHandTracker :: handTracker where
  "newHandTracker =
     \<lparr> handState = \<lparr> hs_detected = False, hs_distance = Fin 0.5, hs_rotation = Fin 0,
                       hs_rawLandmarks = None \<rparr>,
       smoothedDistance = Fin 0.5,
       smoothedRotation = Fin 0,
       smoothingFactor = Fin 0.3,
       showSkeleton = False \<rparr>"

subsection \<open>calculateDistance (lines 184-201)\<close>

text \<open>Lines 189-191: the distance between the wrist and the middle finger tip.\<close>

definition handSizeOf :: "landmark \<Rightarrow> landmark \<Rightarrow> number" where
  "handSizeOf wrist middleTip =
     (let dx = lm_x middleTip - lm_x wrist;
          dy = lm_y middleTip - lm_y wrist
      in Math_sqrt (dx * dx + dy * dy))"

text \<open>Lines 195-196: the calibration of the hand size, and the clamp.\<close>

definition normalizeDistance :: "number \<Rightarrow> number" where
  "normalizeDistance handSize =
     Math_max (Fin 0) (Math_min (Fin 1) (Fin 1 - ((handSize - Fin 0.15) / (Fin 0.35 - Fin 0.15))))"

text \<open>Lines 199-200: the exponential smoothing, and the copy into \<open>handState\<close>.\<close>

definition smoothDistance :: "number \<Rightarrow> handTracker \<Rightarrow> handTracker" where
  "smoothDistance d t =
     (let sd = smoothedDistance t + (d - smoothedDistance t) * smoothingFactor t
      in t\<lparr> smoothedDistance := sd, handState := (handState t)\<lparr> hs_distance := sd \<rparr> \<rparr>)"

text \<open>
  Reading \<open>.x\<close> of a missing landmark (line 189 reads the one of the tip first) throws
  a TypeError, before anything is written: the result is \<open>None\<close> and the tracker is
  the one before the call.
\<close>

definition calculateDistance :: "landmark list \<Rightarrow> handTracker \<Rightarrow> handTracker option" where
  "calculateDistance landmarks t =
     (case index landmarks 12 of
        None \<Rightarrow> None
      | Some middleTip \<Rightarrow>
          (case index landmarks 0 of
             None \<Rightarrow> None
           | Some wrist \<Rightarrow> Some (smoothDistance (normalizeDistance (handSizeOf wrist middleTip)) t)))"

subsection \<open>calculateRotation (lines 207-229)\<close>

text \<open>Line 218: the normalisation of the angle.\<close>

definition normalizeAngle :: "number \<Rightarrow> number" where
  "normalizeAngle angle = remainder (angle + Fin 180) (Fin 360) - Fin 180"

text \<open>Lines 213-218: the angle of the vector from the wrist to the middle finger base.\<close>

definition rawAngle :: "landmark \<Rightarrow> landmark \<Rightarrow> number" where
  "rawAngle wrist middleBase =
     (let dx = lm_x middleBase - lm_x wrist;
          dy = lm_y middleBase - lm_y wrist;
          angle = Math_atan2 dy dx * (Fin 180 / Math_PI)
      in normalizeAngle angle)"

text \<open>Lines 224-225: the two wrap-around corrections, one after the other.\<close>

definition wrapDelta :: "number \<Rightarrow> number" where
  "wrapDelta rotationDelta =
     (let d1 = (if rotationDelta > Fin 180 then rotationDelta - Fin 360 else rotationDelta);
          d2 = (if d1 < Fin (- 180) then d1 + Fin 360 else d1)
      in d2)"

text \<open>Lines 221-228: the smoothing of the rotation, and the copy into \<open>handState\<close>.\<close>

definition smoothRotation :: "number \<Rightarrow> handTracker \<Rightarrow> handTracker" where
  "smoothRotation angle t =
     (let rotationDelta = wrapDelta (angle - smoothedRotation t);
          sr = smoothedRotation t + rotationDelta * smoothingFactor t
      in t\<lparr> smoothedRotation := sr, handState := (handState t)\<lparr> hs_rotation := sr \<rparr> \<rparr>)"

definition calculateRotation :: "landmark list \<Rightarrow> handTracker \<Rightarrow> handTracker option" where
  "calculateRotation landmarks t =
     (case index landmarks 9 of
        None \<Rightarrow> None
      | Some middleBase \<Rightarrow>
          (case index landmarks 0 of
             None \<Rightarrow> None
           | Some wrist \<Rightarrow> Some (smoothRotation (rawAngle wrist middleBase) t)))"

subsection \<open>drawHandSkeleton (lines 234-277)\<close>

definition connections :: "(nat \<times> nat) list" where
  "connections =
     [(0, 1), (1, 2), (2, 3), (3, 4),
      (0, 5), (5, 6), (6, 7), (7, 8),
      (0, 9), (9, 10), (10, 11), (11, 12),
      (0, 13), (13, 14), (14, 15), (15, 16),
      (0, 17), (17, 18), (18, 19), (19, 20),
      (5, 9), (9, 13), (13, 17)]"

text \<open>
  The drawing itself goes to the canvas, which is not modelled; what remains is that
  reading \<open>.x\<close> of a missing end point of a connection throws (\<open>None\<close>).
\<close>

definition drawHandSkeleton :: "landmark list \<Rightarrow> unit option" where
  "drawHandSkeleton landmarks =
     (if list_all (\<lambda>(start, end). index landmarks start \<noteq> None \<and> index landmarks end \<noteq> None)
           connections
      then Some () else None)"

subsection \<open>onResults (lines 133-178)\<close>

text \<open>
  The result is the tracker after the call, and the \<open>handUpdate\<close> event that was emitted;
  \<open>None\<close> when a TypeError left the function before the event.
\<close>

definition onResults :: "results \<Rightarrow> handTracker \<Rightarrow> handTracker \<times> handData option" where
  "onResults res t =
     (case multiHandLandmarks res of
        Some (landmarks # others) \<Rightarrow>
          (case calculateDistance landmarks t of
             None \<Rightarrow> (t, None)
           | Some t1 \<Rightarrow>
               (case calculateRotation landmarks t1 of
                  None \<Rightarrow> (t1, None)
                | Some t2 \<Rightarrow>
                    (let t3 = t2\<lparr> handState := (handState t2)\<lparr> hs_detected := True,
                                     hs_rawLandmarks := Some landmarks \<rparr> \<rparr>
                     in if showSkeleton t3 \<and> drawHandSkeleton landmarks = None then (t3, None)
                        else (t3, Some \<lparr> detected = True, distance = smoothedDistance t3,
                                          rotation = smoothedRotation t3 \<rparr>))))
      | _ \<Rightarrow>
          (let t1 = t\<lparr> handState := (handState t)\<lparr> hs_detected := False \<rparr> \<rparr>
           in (t1, Some \<lparr> detected = False, distance = smoothedDistance t1,
                           rotation = smoothedRotation t1 \<rparr>)))"

text \<open>getHandState (lines 291-297).\<close>

definition getHandState :: "handTracker \<Rightarrow> handData" where
  "getHandState t =
     \<lparr> detected = hs_detected (handState t), distance = smoothedDistance t,
       rotation = smoothedRotation t \<rparr>"

text \<open>toggleSkeleton (lines 282-286); the class list of the canvas is not modelled.\<close>

definition toggleSkeleton :: "bool \<Rightarrow> handTracker \<Rightarrow> handTracker" where
  "toggleSkeleton show t = t\<lparr> showSkeleton := show \<rparr>"

text \<open>The detection frames one after the other, each on the tracker the last one left.\<close>

fun processFrames :: "results list \<Rightarrow> handTracker \<Rightarrow> handTracker" where
  "processFrames [] t = t"
| "processFrames (res # rest) t = processFrames rest (fst (onResults res t))"

section \<open>ParticleSystem\<close>

text \<open>The class \<open>ParticleSystem\<close> of \<open>ParticleSystemHand.js\<close>.\<close>

datatype layerName = Outer | Middle | Inner

text \<open>The string of a layer name, as \<open>init\<close> passes it to \<open>createParticleLayer\<close>.\<close>

fun nameOf :: "layerName \<Rightarrow> string" where
  "nameOf Outer = ''outer''"
| "nameOf Middle = ''middle''"
| "nameOf Inner = ''inner''"

text \<open>An entry of \<open>this.layers\<close> (the colour is left out).\<close>

record layerConfig =
  cfg_count :: nat
  cfg_size :: number
  cfg_opacity :: number
  cfg_radius :: number

text \<open>
  A \<open>THREE.Points\<close> object, as far as the program reads and writes it: its rotation, and
  the opacity and the size of its material.  The particle positions are random and are
  only handed to the renderer.
\<close>

record points =
  rotation_x :: number
  rotation_y :: number
  rotation_z :: number
  material_opacity :: number
  material_size :: number

text \<open>The position of the camera.  \<open>lookAt\<close> only turns the camera and is not modelled.\<close>

record cameraObj =
  position_x :: number
  position_y :: number
  position_z :: number

text \<open>The scale and the rotation of the particle group.\<close>

record groupObj =
  scale_x :: number
  scale_y :: number
  scale_z :: number
  group_rotation_x :: number
  group_rotation_y :: number

text \<open>
  The record is a ParticleSystem on which \<open>init\<close> has created the camera and the
  particle group (\<open>App.init\<close> calls \<open>init\<close> before the first render tick).
  \<open>layerRefs\<close> holds the properties of the object that refer to a layer, under their
  property names: \<open>outerShell\<close>, \<open>middleRing\<close> and \<open>innerCore\<close>, which the
  constructor sets to \<open>null\<close> (here: no entry), and every property that
  \<open>createParticleLayer\<close> writes.
\<close>

record particleSystem =
  camera :: cameraObj
  particleGroup :: groupObj
  layerRefs :: "string \<rightharpoonup> points"
  layers :: "layerName \<Rightarrow> layerConfig"
  cameraDistance :: number
  targetCameraDistance :: number
  minCameraDistance :: number
  maxCameraDistance :: number
  sphereRotation :: number
  targetRotation :: number
  autoBreathTime :: number
  isHandControlled :: bool
  time :: number

text \<open>Lines 25-47.\<close>

fun layerTable :: "layerName \<Rightarrow> layerConfig" where
  "layerTable Outer =
     \<lparr> cfg_count = 5000, cfg_size = Fin 0.03, cfg_opacity = Fin 0.6, cfg_radius = Fin 4.0 \<rparr>"
| "layerTable Middle =
     \<lparr> cfg_count = 3000, cfg_size = Fin 0.05, cfg_opacity = Fin 0.9, cfg_radius = Fin 2.5 \<rparr>"
| "layerTable Inner =
     \<lparr> cfg_count = 2000, cfg_size = Fin 0.08, cfg_opacity = Fin 1.0, cfg_radius = Fin 1.5 \<rparr>"

text \<open>
  The constructor (lines 12-65), with the camera at \<open>(0, 2, cameraDistance)\<close> and the
  empty particle group of \<open>init\<close> (lines 81-102).
\<close>

definition newParticleSystem :: particleSystem where
  "newParticleSystem =
     \<lparr> camera = \<lparr> position_x = Fin 0, position_y = Fin 2, position_z = Fin 10 \<rparr>,
       particleGroup = \<lparr> scale_x = Fin 1, scale_y = Fin 1, scale_z = Fin 1,
                         group_rotation_x = Fin 0, group_rotation_y = Fin 0 \<rparr>,
       layerRefs = Map.empty,
       layers = layerTable,
       cameraDistance = Fin 10,
       targetCameraDistance = Fin 10,
       minCameraDistance = Fin 3,
       maxCameraDistance = Fin 15,
       sphereRotation = Fin 0,
       targetRotation = Fin 0,
       autoBreathTime = Fin 0,
       isHandControlled = False,
       time = Fin 0 \<rparr>"

text \<open>
  createParticleLayer (lines 126-169): the new points object is stored in the property
  whose name is the layer name followed by \<open>Shell\<close> (line 165).
\<close>

definition createParticleLayer :: "layerName \<Rightarrow> particleSystem \<Rightarrow> particleSystem" where
  "createParticleLayer layerName ps =
     (let config = layers ps layerName;
          particles = \<lparr> rotation_x = Fin 0, rotation_y = Fin 0, rotation_z = Fin 0,
                        material_opacity = cfg_opacity config, material_size = cfg_size config \<rparr>
      in ps\<lparr> layerRefs := (layerRefs ps)(nameOf layerName @ ''Shell'' \<mapsto> particles) \<rparr>)"

text \<open>init (lines 70-121): the three layers (lines 105-107).\<close>

definition init :: "particleSystem \<Rightarrow> particleSystem" where
  "init ps = createParticleLayer Inner (createParticleLayer Middle (createParticleLayer Outer ps))"

text \<open>updateFromHand (lines 176-194).\<close>

definition updateFromHand :: "handData \<Rightarrow> particleSystem \<Rightarrow> particleSystem" where
  "updateFromHand handData ps =
     (if detected handData then
        ps\<lparr> isHandControlled := True,
            targetCameraDistance :=
              minCameraDistance ps + (distance handData * (maxCameraDistance ps - minCameraDistance ps)),
            targetRotation := (rotation handData * Math_PI) / Fin 180 \<rparr>
      else
        ps\<lparr> isHandControlled := False,
            targetCameraDistance := Fin 10,
            targetRotation := Fin 0 \<rparr>)"

subsection \<open>animateParticles (lines 199-249)\<close>

text \<open>Lines 203-209: the hand-controlled branch.\<close>

definition handControlled :: "particleSystem \<Rightarrow> particleSystem" where
  "handControlled ps =
     (let cd = cameraDistance ps + (targetCameraDistance ps - cameraDistance ps) * Fin 0.08;
          sr = sphereRotation ps + (targetRotation ps - sphereRotation ps) * Fin 0.08
      in ps\<lparr> cameraDistance := cd,
             camera := (camera ps)\<lparr> position_z := cd \<rparr>,
             sphereRotation := sr,
             particleGroup := (particleGroup ps)\<lparr> group_rotation_y := sr \<rparr> \<rparr>)"

text \<open>Lines 212-226: the auto-breathing branch.\<close>

definition autoBreathing :: "particleSystem \<Rightarrow> particleSystem" where
  "autoBreathing ps =
     (let abt = autoBreathTime ps + Fin 0.01;
          breathScale = Fin 1 + Math_sin (abt * Fin 2) * Fin 0.05;
          g = particleGroup ps
      in ps\<lparr> autoBreathTime := abt,
             particleGroup :=
               g\<lparr> scale_x := breathScale, scale_y := breathScale, scale_z := breathScale,
                   group_rotation_y := group_rotation_y g + Fin 0.002,
                   group_rotation_x := Math_sin (abt * Fin 0.5) * Fin 0.1 \<rparr>,
             camera :=
               (camera ps)\<lparr> position_x := Math_sin (abt * Fin 0.3) * Fin 1,
                             position_y := Fin 2 + Math_cos (abt * Fin 0.2) * Fin 0.5 \<rparr> \<rparr>)"

text \<open>Lines 229-248: the animations of the layers, each under the test of its reference.\<close>

definition animateOuterShell :: "particleSystem \<Rightarrow> particleSystem" where
  "animateOuterShell ps =
     (case layerRefs ps ''outerShell'' of
        None \<Rightarrow> ps
      | Some outerShell \<Rightarrow>
          ps\<lparr> layerRefs := (layerRefs ps)(''outerShell'' \<mapsto>
                outerShell\<lparr> rotation_z := rotation_z outerShell + Fin 0.0003 \<rparr>) \<rparr>)"

definition animateMiddleRing :: "particleSystem \<Rightarrow> particleSystem" where
  "animateMiddleRing ps =
     (case layerRefs ps ''middleRing'' of
        None \<Rightarrow> ps
      | Some middleRing \<Rightarrow>
          (let pulse = Fin 1 + Math_sin (time ps * Fin 3) * Fin 0.05
           in ps\<lparr> layerRefs := (layerRefs ps)(''middleRing'' \<mapsto>
                    middleRing\<lparr> rotation_y := rotation_y middleRing + Fin 0.001,
                                 material_opacity := cfg_opacity (layers ps Middle) * pulse \<rparr>) \<rparr>))"

definition animateInnerCore :: "particleSystem \<Rightarrow> particleSystem" where
  "animateInnerCore ps =
     (case layerRefs ps ''innerCore'' of
        None \<Rightarrow> ps
      | Some innerCore \<Rightarrow>
          (let glow = Fin 1 + Math_sin (time ps * Fin 4) * Fin 0.1
           in ps\<lparr> layerRefs := (layerRefs ps)(''innerCore'' \<mapsto>
                    innerCore\<lparr> rotation_x := rotation_x innerCore + Fin 0.002,
                                material_size := cfg_size (layers ps Inner) * glow \<rparr>) \<rparr>))"

definition animateParticles :: "particleSystem \<Rightarrow> particleSystem" where
  "animateParticles ps =
     (let ps1 = ps\<lparr> time := time ps + Fin 0.01 \<rparr>;
          ps2 = (if isHandControlled ps1 then handControlled ps1 else autoBreathing ps1)
      in animateInnerCore (animateMiddleRing (animateOuterShell ps2)))"

text \<open>A number of render ticks (\<open>render\<close>, lines 263-266, draws after each).\<close>

fun renderTicks :: "nat \<Rightarrow> particleSystem \<Rightarrow> particleSystem" where
  "renderTicks 0 ps = ps"
| "renderTicks (Suc n) ps = renderTicks n (animateParticles ps)"

section \<open>App\<close>

text \<open>
  The class \<open>App\<close> of the entry point.  The application holds one tracker and one
  particle system.  \<open>onHandUpdate\<close> is the listener of the \<open>handUpdate\<close> event
  (registered at line 58); a detection frame runs \<open>onResults\<close> and delivers the emitted
  event to it.
\<close>

record app =
  app_handTracker :: handTracker
  app_particleSystem :: particleSystem

definition newApp :: app where
  "newApp = \<lparr> app_handTracker = newHandTracker, app_particleSystem = init newParticleSystem \<rparr>"

definition onHandUpdate :: "handData \<Rightarrow> app \<Rightarrow> app" where
  "onHandUpdate handData a =
     a\<lparr> app_particleSystem := updateFromHand handData (app_particleSystem a) \<rparr>"

definition detectionFrame :: "results \<Rightarrow> app \<Rightarrow> app" where
  "detectionFrame res a =
     (case onResults res (app_handTracker a) of
        (t, None) \<Rightarrow> a\<lparr> app_handTracker := t \<rparr>
      | (t, Some handData) \<Rightarrow> onHandUpdate handData (a\<lparr> app_handTracker := t \<rparr>))"

text \<open>update (lines 94-100): one render tick.\<close>

definition update :: "app \<Rightarrow> app" where
  "update a = a\<lparr> app_particleSystem := animateParticles (app_particleSystem a) \<rparr>"

text \<open>
  Detection frames and render ticks arrive on one event loop, in any order, each running
  to its end before the next.
\<close>

datatype event = Detection results | RenderTick

fun step :: "event \<Rightarrow> app \<Rightarrow> app" where
  "step (Detection res) a = detectionFrame res a"
| "step RenderTick a = update a"

fun run :: "event list \<Rightarrow> app \<Rightarrow> app" where
  "run [] a = a"
| "run (e # es) a = run es (step e a)"

section \<open>The distance in binary64\<close>

text \<open>
  The numbers above are exact.  For the digits of the smoothed distance the lines 195,
  196 and 199 of \<open>calculateDistance\<close> are given once more on finite doubles, every
  operation rounded to the nearest double, ties to even, as IEEE 754 has it.  A double is
  the real number that it stands for, and a decimal literal of the source is the double
  nearest to it.  The range of the exponent is not bounded here (no subnormal numbers,
  no overflow); the values of the calculation are far from both.
\<close>

text \<open>The power of two with an integer exponent.\<close>

definition pow2 :: "int \<Rightarrow> real" where
  "pow2 k = (if 0 \<le> k then 2 ^ nat k else 1 / 2 ^ nat (- k))"

text \<open>The exponent of the binade of \<open>x\<close>: \<open>2 ^ e \<le> |x| < 2 ^ (e + 1)\<close>.\<close>

definition exponent :: "real \<Rightarrow> int" where
  "exponent x = \<lfloor>log 2 \<bar>x\<bar>\<rfloor>"

text \<open>The nearest integer, the even one of two that are equally near.\<close>

definition roundEven :: "real \<Rightarrow> int" where
  "roundEven r =
     (let f = \<lfloor>r\<rfloor>
      in if r - of_int f < 1 / 2 then f
         else if 1 / 2 < r - of_int f then f + 1
         else if even f then f else f + 1)"

text \<open>
  The nearest double: 53 significant bits, so that the doubles of the binade of \<open>x\<close> are
  the multiples of \<open>2 ^ (e - 52)\<close>.
\<close>

definition round64 :: "real \<Rightarrow> real" where
  "round64 x =
     (if x = 0 then 0
      else (let ulp = pow2 (exponent x - 52) in ulp * of_int (roundEven (x / ulp))))"

text \<open>Lines 195-196: the calibration of the hand size, and the clamp.\<close>

definition normalizeDistance64 :: "real \<Rightarrow> real" where
  "normalizeDistance64 handSize =
     max 0 (min 1 (round64 (1 -
       round64 (round64 (handSize - round64 0.15) / round64 (round64 0.35 - round64 0.15)))))"

text \<open>
  Line 199: the new smoothed distance, from the distance of the frame, the smoothed
  distance so far and the smoothing factor.
\<close>

definition smoothDistance64 :: "real \<Rightarrow> real \<Rightarrow> real \<Rightarrow> real" where
  "smoothDistance64 d smoothed factor = round64 (smoothed + round64 (round64 (d - smoothed) * factor))"

section \<open>Frames and predicates of the properties\<close>

text \<open>A frame with no hand: \<open>multiHandLandmarks\<close> is absent or the empty array.\<close>

definition noHand :: "results \<Rightarrow> bool" where
  "noHand res = (case multiHandLandmarks res of None \<Rightarrow> True | Some hands \<Rightarrow> hands = [])"



text \<open>An event other than a frame with a hand, and an event other than a frame with no hand.\<close>

definition quietEvent :: "event \<Rightarrow> bool" where
  "quietEvent e = (case e of Detection res \<Rightarrow> noHand res | RenderTick \<Rightarrow> True)"


text \<open>
  A frame of one hand with 21 landmarks: the wrist (0), the middle finger base (9) and
  the middle finger tip (12) as given, every other landmark at the wrist.
\<close>

definition handFrame :: "landmark \<Rightarrow> landmark \<Rightarrow> landmark \<Rightarrow> results" where
  "handFrame wrist middleBase middleTip =
     \<lparr> multiHandLandmarks = Some [(replicate 21 wrist)[9 := middleBase, 12 := middleTip]] \<rparr>"

text \<open>
  A hand with the wrist in the middle of the image, the middle finger base at the offset
  \<open>(dx, dy)\<close> from it and the tip at twice the offset.
\<close>

definition pointing :: "real \<Rightarrow> real \<Rightarrow> results" where
  "pointing dx dy =
     handFrame (Landmark (Fin 0.5) (Fin 0.5))
               (Landmark (Fin (0.5 + dx)) (Fin (0.5 + dy)))
               (Landmark (Fin (0.5 + 2 * dx)) (Fin (0.5 + 2 * dy)))"

text \<open>The hand at 135 degrees twice, then four times at -135 degrees.\<close>

definition acrossBoundary :: "results list" where
  "acrossBoundary =
     [pointing (- 0.25) 0.25, pointing (- 0.25) 0.25,
      pointing (- 0.25) (- 0.25), pointing (- 0.25) (- 0.25),
      pointing (- 0.25) (- 0.25), pointing (- 0.25) (- 0.25)]"

text \<open>
  A hand that turns on in the same sense, 45 degrees a frame after the first two:
  135, 180, -135, -90, -45, 0, 45, 90 and 135 degrees.
\<close>

definition fullTurn :: "results list" where
  "fullTurn =
     [pointing (- 0.25) 0.25, pointing (- 0.25) 0, pointing (- 0.25) (- 0.25),
      pointing 0 (- 0.25), pointing 0.25 (- 0.25), pointing 0.25 0,
      pointing 0.25 0.25, pointing 0 0.25, pointing (- 0.25) 0.25]"





text \<open>A near hand, of size 0.35.\<close>

definition nearFrame :: results where
  "nearFrame =
     handFrame (Landmark (Fin 0.5) (Fin 0.25)) (Landmark (Fin 0.5) (Fin 0.4))
               (Landmark (Fin 0.5) (Fin 0.6))"

definition noHandData :: "number \<Rightarrow> number \<Rightarrow> handData" where
  "noHandData d r = \<lparr> detected = False, distance = d, rotation = r \<rparr>"

definition detectedData :: "number \<Rightarrow> number \<Rightarrow> handData" where
  "detectedData d r = \<lparr> detected = True, distance = d, rotation = r \<rparr>"

text \<open>The two frames with no hand.\<close>

definition absentFrame :: results where
  "absentFrame = \<lparr> multiHandLandmarks = None \<rparr>"

definition emptyFrame :: results where
  "emptyFrame = \<lparr> multiHandLandmarks = Some [] \<rparr>"

text \<open>
  The raw angles 179 and -179 degrees in turn, \<open>n\<close> times each, through the smoothing
  of the rotation.
\<close>

fun oscillate :: "nat \<Rightarrow> handTracker \<Rightarrow> handTracker" where
  "oscillate 0 t = t"
| "oscillate (Suc n) t = smoothRotation (Fin (- 179)) (smoothRotation (Fin 179) (oscillate n t))"

section \<open>Arithmetic of the numbers\<close>

lemma Fin_arith [simp]:
  "Fin u + Fin v = Fin (u + v)"
  "Fin u - Fin v = Fin (u - v)"
  "Fin u * Fin v = Fin (u * v)"
  "v \<noteq> 0 \<Longrightarrow> Fin u / Fin v = Fin (u / v)"
  "Fin u < Fin v \<longleftrightarrow> u < v"
  "Fin u \<le> Fin v \<longleftrightarrow> u \<le> v"
  by (simp_all add: plus_number_def minus_number_def times_number_def divide_number_def
      less_number_def less_eq_number_def)

lemma Math_simps [simp]:
  "Math_max (Fin u) (Fin v) = Fin (max u v)"
  "Math_min (Fin u) (Fin v) = Fin (min u v)"
  "0 \<le> u \<Longrightarrow> Math_sqrt (Fin u) = Fin (sqrt u)"
  "Math_sin (Fin u) = Fin (sin u)"
  "Math_cos (Fin u) = Fin (cos u)"
  "Math_atan2 (Fin v) (Fin u) = Fin (atan2 v u)"
  by (simp_all add: Math_max_def Math_min_def Math_sqrt_def Math_sin_def Math_cos_def Math_atan2_def)


lemma isFinite_Fin [simp]: "isFinite (Fin u)" "\<not> isFinite NaN"
  by (simp_all add: isFinite_def)

lemma NaN_arith [simp]:
  "NaN + a = NaN" "a + NaN = NaN" "NaN - a = NaN" "a - NaN = NaN"
  "NaN * a = NaN" "a * NaN = NaN"
  "\<not> NaN < a" "\<not> a < NaN"
  by (cases a; simp add: plus_number_def minus_number_def times_number_def less_number_def)+

lemma NaN_Math [simp]:
  "Math_sqrt NaN = NaN" "Math_max a NaN = NaN" "Math_max NaN a = NaN"
  "Math_min a NaN = NaN" "Math_min NaN a = NaN" "NaN / a = NaN"
  by (cases a; simp add: Math_sqrt_def Math_max_def Math_min_def divide_number_def)+

subsection \<open>The distance\<close>

lemma normalizeDistance_Fin:
  "normalizeDistance (Fin h) = Fin (max 0 (min 1 (1 - (h - 0.15) / (0.35 - 0.15))))"
  by (simp add: normalizeDistance_def)

lemma normalizeDistance_cases:
  "normalizeDistance (Fin h) =
     Fin (if h \<le> 0.15 then 1 else if 0.35 \<le> h then 0 else (0.35 - h) / (0.35 - 0.15))"
  by (simp add: normalizeDistance_Fin max_def min_def field_simps)

lemma handSizeOf_Fin:
  "handSizeOf (Landmark (Fin a) (Fin b)) (Landmark (Fin c) (Fin d)) =
     Fin (sqrt ((c - a) * (c - a) + (d - b) * (d - b)))"
  by (simp add: handSizeOf_def Let_def)

lemma handSizeOf_vertical:
  "handSizeOf (Landmark (Fin a) (Fin b)) (Landmark (Fin a) (Fin d)) = Fin \<bar>d - b\<bar>"
  by (simp add: handSizeOf_Fin)


lemma smoothDistance_fields [simp]:
  "smoothingFactor (smoothDistance d t) = smoothingFactor t"
  "smoothedRotation (smoothDistance d t) = smoothedRotation t"
  "showSkeleton (smoothDistance d t) = showSkeleton t"
  "smoothedDistance (smoothDistance d t) = smoothedDistance t + (d - smoothedDistance t) * smoothingFactor t"
  by (simp_all add: smoothDistance_def Let_def)

lemma smoothRotation_fields [simp]:
  "smoothingFactor (smoothRotation a t) = smoothingFactor t"
  "smoothedDistance (smoothRotation a t) = smoothedDistance t"
  "showSkeleton (smoothRotation a t) = showSkeleton t"
  "smoothedRotation (smoothRotation a t) =
     smoothedRotation t + wrapDelta (a - smoothedRotation t) * smoothingFactor t"
  by (simp_all add: smoothRotation_def Let_def)





lemma onResults_smoothingFactor [simp]:
  "smoothingFactor (fst (onResults res t)) = smoothingFactor t"
  by (auto simp: onResults_def Let_def calculateDistance_def calculateRotation_def
      split: option.splits list.splits)

lemma onResults_showSkeleton [simp]:
  "showSkeleton (fst (onResults res t)) = showSkeleton t"
  by (auto simp: onResults_def Let_def calculateDistance_def calculateRotation_def
      split: option.splits list.splits)




subsection \<open>The rotation\<close>

lemma wrapDelta_Fin:
  "wrapDelta (Fin d) =
     Fin (if 180 < d then d - 360 else if d < - 180 then d + 360 else d)"
  by (simp add: wrapDelta_def Let_def)

lemma normalizeAngle_Fin:
  "normalizeAngle (Fin a) = Fin (a + 180 - 360 * of_int (trunc ((a + 180) / 360)) - 180)"
  by (simp add: normalizeAngle_def remainder_def)

lemma rawAngle_Fin:
  "rawAngle (Landmark (Fin a) (Fin b)) (Landmark (Fin c) (Fin d)) =
     normalizeAngle (Fin (atan2 (d - b) (c - a) * (180 / pi)))"
  by (simp add: rawAngle_def Let_def Math_PI_def)

lemma atan2_values:
  "atan2 0 (1/4) = 0"
  "atan2 (1/4) (1/4) = pi / 4"
  "atan2 (1/4) 0 = pi / 2"
  "atan2 (1/4) (- (1/4)) = 3 * pi / 4"
  "atan2 0 (- (1/4)) = pi"
  "atan2 (- (1/4)) (- (1/4)) = - (3 * pi / 4)"
  "atan2 (- (1/4)) 0 = - (pi / 2)"
  "atan2 (- (1/4)) (1/4) = - (pi / 4)"
  by (simp_all add: atan2_def arctan_one arctan_minus)

lemma rawAngle_values:
  "rawAngle (Landmark (Fin 0.5) (Fin 0.5)) (Landmark (Fin (0.5 + 0.25)) (Fin (0.5 + 0))) = Fin 0"
  "rawAngle (Landmark (Fin 0.5) (Fin 0.5)) (Landmark (Fin (0.5 + 0.25)) (Fin (0.5 + 0.25))) = Fin 45"
  "rawAngle (Landmark (Fin 0.5) (Fin 0.5)) (Landmark (Fin (0.5 + 0)) (Fin (0.5 + 0.25))) = Fin 90"
  "rawAngle (Landmark (Fin 0.5) (Fin 0.5)) (Landmark (Fin (0.5 + - 0.25)) (Fin (0.5 + 0.25))) = Fin 135"
  "rawAngle (Landmark (Fin 0.5) (Fin 0.5)) (Landmark (Fin (0.5 + - 0.25)) (Fin (0.5 + 0))) = Fin (- 180)"
  "rawAngle (Landmark (Fin 0.5) (Fin 0.5)) (Landmark (Fin (0.5 + - 0.25)) (Fin (0.5 + - 0.25))) = Fin (- 135)"
  "rawAngle (Landmark (Fin 0.5) (Fin 0.5)) (Landmark (Fin (0.5 + 0)) (Fin (0.5 + - 0.25))) = Fin (- 90)"
  "rawAngle (Landmark (Fin 0.5) (Fin 0.5)) (Landmark (Fin (0.5 + 0.25)) (Fin (0.5 + - 0.25))) = Fin (- 45)"
  by (simp_all add: rawAngle_Fin atan2_values normalizeAngle_Fin trunc_def)

lemma drawHandSkeleton_21: "length lms = 21 \<Longrightarrow> drawHandSkeleton lms = Some ()"
  by (simp add: drawHandSkeleton_def connections_def index_def)

lemma onResults_handFrame:
  "onResults (handFrame w b m) t =
     (let t2 = smoothRotation (rawAngle w b) (smoothDistance (normalizeDistance (handSizeOf w m)) t);
          t3 = t2\<lparr> handState := (handState t2)\<lparr> hs_detected := True,
                 hs_rawLandmarks := Some ((replicate 21 w)[9 := b, 12 := m]) \<rparr> \<rparr>
      in (t3, Some \<lparr> detected = True, distance = smoothedDistance t3, rotation = smoothedRotation t3 \<rparr>))"
  by (simp add: onResults_def handFrame_def calculateDistance_def calculateRotation_def index_def
      Let_def drawHandSkeleton_21)

lemma rotation_pointing:
  assumes "smoothedRotation t = Fin s" "smoothingFactor t = Fin 0.3"
    and "rawAngle (Landmark (Fin 0.5) (Fin 0.5)) (Landmark (Fin (0.5 + dx)) (Fin (0.5 + dy))) = Fin a"
  shows "smoothedRotation (fst (onResults (pointing dx dy) t)) =
     Fin (s + (if 180 < a - s then a - s - 360 else if a - s < - 180 then a - s + 360 else a - s) * 0.3)"
  using assms by (simp add: pointing_def onResults_handFrame Let_def wrapDelta_Fin)




subsection \<open>The wrap-around of the rotation\<close>

lemma processFrames_append:
  "processFrames (xs @ ys) t = processFrames ys (processFrames xs t)"
  by (induction xs arbitrary: t) simp_all

lemma wrapDelta_bounded:
  assumes "\<bar>d\<bar> \<le> 540"
  shows "\<exists>w. wrapDelta (Fin d) = Fin w \<and> \<bar>w\<bar> \<le> 180"
  using assms by (auto simp: wrapDelta_Fin)


lemma oscillate_smoothingFactor [simp]:
  "smoothingFactor (oscillate n t) = smoothingFactor t"
  by (induction n) simp_all

lemma oscillate_step:
  assumes "smoothedRotation t = Fin x" "smoothingFactor t = Fin 0.3" "0 \<le> x" "x \<le> 181"
  shows "smoothedRotation (smoothRotation (Fin 179) t) = Fin (0.7 * x + 53.7)"
    and "smoothedRotation (smoothRotation (Fin (- 179)) (smoothRotation (Fin 179) t))
          = Fin (0.49 * x + 91.89)"
proof -
  show y: "smoothedRotation (smoothRotation (Fin 179) t) = Fin (0.7 * x + 53.7)"
    using assms by (simp add: wrapDelta_Fin algebra_simps)
  have "- 179 - (0.7 * x + 53.7) < - 180" "\<not> 180 < - 179 - (0.7 * x + 53.7)"
    using assms(3,4) by simp_all
  then have "wrapDelta (Fin (- 179) - Fin (0.7 * x + 53.7)) = Fin (181 - (0.7 * x + 53.7))"
    by (simp add: wrapDelta_Fin)
  then show "smoothedRotation (smoothRotation (Fin (- 179)) (smoothRotation (Fin 179) t))
          = Fin (0.49 * x + 91.89)"
    using y assms(2) by (simp add: algebra_simps)
qed

lemma oscillate_converges:
  "\<exists>x. smoothedRotation (oscillate n newHandTracker) = Fin x \<and> 0 \<le> x \<and> x \<le> 181
       \<and> \<bar>x - 180\<bar> \<le> 180 * 0.49 ^ n + 0.2"
proof (induction n)
  case 0
  show ?case by (simp add: newHandTracker_def)
next
  case (Suc n)
  then obtain x where x: "smoothedRotation (oscillate n newHandTracker) = Fin x" "0 \<le> x" "x \<le> 181"
    and near: "\<bar>x - 180\<bar> \<le> 180 * 0.49 ^ n + 0.2" by blast
  have f: "smoothingFactor (oscillate n newHandTracker) = Fin 0.3"
    by (simp add: newHandTracker_def)
  have z: "smoothedRotation (oscillate (Suc n) newHandTracker) = Fin (0.49 * x + 91.89)"
    using oscillate_step(2)[OF x(1) f x(2,3)] by simp
  have "\<bar>0.49 * x + 91.89 - 180\<bar> \<le> 0.49 * \<bar>x - 180\<bar> + 0.09"
    by (auto simp: abs_if field_simps)
  also have "\<dots> \<le> 0.49 * (180 * 0.49 ^ n + 0.2) + 0.09"
    using near by simp
  also have "\<dots> \<le> 180 * 0.49 ^ Suc n + 0.2"
    by (simp add: algebra_simps)
  finally have "\<bar>0.49 * x + 91.89 - 180\<bar> \<le> 180 * 0.49 ^ Suc n + 0.2" .
  moreover have "0 \<le> 0.49 * x + 91.89" "0.49 * x + 91.89 \<le> 181"
    using x(2,3) by simp_all
  ultimately show ?case using z by blast
qed

lemma oscillate_positive:
  "\<exists>y. smoothedRotation (smoothRotation (Fin 179) (oscillate n newHandTracker)) = Fin y \<and> 53 < y"
proof -
  from oscillate_converges[of n] obtain x
    where x: "smoothedRotation (oscillate n newHandTracker) = Fin x" "0 \<le> x" "x \<le> 181" by blast
  have f: "smoothingFactor (oscillate n newHandTracker) = Fin 0.3"
    by (simp add: newHandTracker_def)
  from oscillate_step(1)[OF x(1) f x(2,3)] x(2) show ?thesis by simp
qed

subsection \<open>The range of the raw angle\<close>




subsection \<open>Frames with no hand, short frames and NaN\<close>

lemma onResults_noHand:
  assumes "noHand res"
  shows "onResults res t =
     (t\<lparr> handState := (handState t)\<lparr> hs_detected := False \<rparr> \<rparr>,
      Some (noHandData (smoothedDistance t) (smoothedRotation t)))"
  using assms
  by (auto simp: noHand_def onResults_def Let_def noHandData_def split: option.splits list.splits)







lemma normalizeDistance_NaN [simp]: "normalizeDistance NaN = NaN"
  by (simp add: normalizeDistance_def)



subsection \<open>The particle system\<close>

lemma animateOuterShell_fields [simp]:
  "camera (animateOuterShell ps) = camera ps"
  "particleGroup (animateOuterShell ps) = particleGroup ps"
  "layers (animateOuterShell ps) = layers ps"
  "cameraDistance (animateOuterShell ps) = cameraDistance ps"
  "targetCameraDistance (animateOuterShell ps) = targetCameraDistance ps"
  "minCameraDistance (animateOuterShell ps) = minCameraDistance ps"
  "maxCameraDistance (animateOuterShell ps) = maxCameraDistance ps"
  "sphereRotation (animateOuterShell ps) = sphereRotation ps"
  "targetRotation (animateOuterShell ps) = targetRotation ps"
  "autoBreathTime (animateOuterShell ps) = autoBreathTime ps"
  "isHandControlled (animateOuterShell ps) = isHandControlled ps"
  "time (animateOuterShell ps) = time ps"
  by (simp_all add: animateOuterShell_def split: option.splits)

lemma animateMiddleRing_fields [simp]:
  "camera (animateMiddleRing ps) = camera ps"
  "particleGroup (animateMiddleRing ps) = particleGroup ps"
  "layers (animateMiddleRing ps) = layers ps"
  "cameraDistance (animateMiddleRing ps) = cameraDistance ps"
  "targetCameraDistance (animateMiddleRing ps) = targetCameraDistance ps"
  "minCameraDistance (animateMiddleRing ps) = minCameraDistance ps"
  "maxCameraDistance (animateMiddleRing ps) = maxCameraDistance ps"
  "sphereRotation (animateMiddleRing ps) = sphereRotation ps"
  "targetRotation (animateMiddleRing ps) = targetRotation ps"
  "autoBreathTime (animateMiddleRing ps) = autoBreathTime ps"
  "isHandControlled (animateMiddleRing ps) = isHandControlled ps"
  "time (animateMiddleRing ps) = time ps"
  by (simp_all add: animateMiddleRing_def Let_def split: option.splits)

lemma animateInnerCore_fields [simp]:
  "camera (animateInnerCore ps) = camera ps"
  "particleGroup (animateInnerCore ps) = particleGroup ps"
  "layers (animateInnerCore ps) = layers ps"
  "cameraDistance (animateInnerCore ps) = cameraDistance ps"
  "targetCameraDistance (animateInnerCore ps) = targetCameraDistance ps"
  "minCameraDistance (animateInnerCore ps) = minCameraDistance ps"
  "maxCameraDistance (animateInnerCore ps) = maxCameraDistance ps"
  "sphereRotation (animateInnerCore ps) = sphereRotation ps"
  "targetRotation (animateInnerCore ps) = targetRotation ps"
  "autoBreathTime (animateInnerCore ps) = autoBreathTime ps"
  "isHandControlled (animateInnerCore ps) = isHandControlled ps"
  "time (animateInnerCore ps) = time ps"
  by (simp_all add: animateInnerCore_def Let_def split: option.splits)

lemma animateParticles_fields [simp]:
  "isHandControlled (animateParticles ps) = isHandControlled ps"
  "layers (animateParticles ps) = layers ps"
  "targetCameraDistance (animateParticles ps) = targetCameraDistance ps"
  "minCameraDistance (animateParticles ps) = minCameraDistance ps"
  "maxCameraDistance (animateParticles ps) = maxCameraDistance ps"
  "targetRotation (animateParticles ps) = targetRotation ps"
  "time (animateParticles ps) = time ps + Fin 0.01"
  by (simp_all add: animateParticles_def Let_def handControlled_def autoBreathing_def)

lemma animateParticles_hand:
  assumes "isHandControlled ps"
  shows "camera (animateParticles ps) =
      (camera ps)\<lparr> position_z :=
        cameraDistance ps + (targetCameraDistance ps - cameraDistance ps) * Fin 0.08 \<rparr>"
    and "particleGroup (animateParticles ps) =
      (particleGroup ps)\<lparr> group_rotation_y :=
        sphereRotation ps + (targetRotation ps - sphereRotation ps) * Fin 0.08 \<rparr>"
    and "cameraDistance (animateParticles ps) =
      cameraDistance ps + (targetCameraDistance ps - cameraDistance ps) * Fin 0.08"
    and "sphereRotation (animateParticles ps) =
      sphereRotation ps + (targetRotation ps - sphereRotation ps) * Fin 0.08"
    and "autoBreathTime (animateParticles ps) = autoBreathTime ps"
  using assms by (simp_all add: animateParticles_def Let_def handControlled_def)

lemma animateParticles_auto:
  assumes "\<not> isHandControlled ps"
  shows "cameraDistance (animateParticles ps) = cameraDistance ps"
    and "position_z (camera (animateParticles ps)) = position_z (camera ps)"
    and "sphereRotation (animateParticles ps) = sphereRotation ps"
    and "group_rotation_y (particleGroup (animateParticles ps)) =
           group_rotation_y (particleGroup ps) + Fin 0.002"
    and "autoBreathTime (animateParticles ps) = autoBreathTime ps + Fin 0.01"
  using assms by (simp_all add: animateParticles_def Let_def autoBreathing_def)

lemma renderTicks_auto:
  assumes "\<not> isHandControlled ps"
  shows "cameraDistance (renderTicks n ps) = cameraDistance ps
    \<and> position_z (camera (renderTicks n ps)) = position_z (camera ps)
    \<and> sphereRotation (renderTicks n ps) = sphereRotation ps
    \<and> \<not> isHandControlled (renderTicks n ps)"
  using assms
proof (induction n arbitrary: ps)
  case 0
  then show ?case by simp
next
  case (Suc n)
  have "\<not> isHandControlled (animateParticles ps)" using Suc.prems by simp
  from Suc.IH[OF this] show ?case
    by (simp add: animateParticles_auto[OF Suc.prems])
qed

lemma updateFromHand_fields [simp]:
  "camera (updateFromHand ev ps) = camera ps"
  "particleGroup (updateFromHand ev ps) = particleGroup ps"
  "layerRefs (updateFromHand ev ps) = layerRefs ps"
  "layers (updateFromHand ev ps) = layers ps"
  "cameraDistance (updateFromHand ev ps) = cameraDistance ps"
  "minCameraDistance (updateFromHand ev ps) = minCameraDistance ps"
  "maxCameraDistance (updateFromHand ev ps) = maxCameraDistance ps"
  "sphereRotation (updateFromHand ev ps) = sphereRotation ps"
  "autoBreathTime (updateFromHand ev ps) = autoBreathTime ps"
  "time (updateFromHand ev ps) = time ps"
  "isHandControlled (updateFromHand ev ps) = detected ev"
  by (simp_all add: updateFromHand_def)

lemma handData_fields [simp]:
  "detected (detectedData d r)" "distance (detectedData d r) = d" "rotation (detectedData d r) = r"
  "\<not> detected (noHandData d r)" "distance (noHandData d r) = d" "rotation (noHandData d r) = r"
  by (simp_all add: detectedData_def noHandData_def)

lemma updateFromHand_noHandData:
  "targetCameraDistance (updateFromHand (noHandData d r) ps) = Fin 10"
  "targetRotation (updateFromHand (noHandData d r) ps) = Fin 0"
  "isHandControlled (updateFromHand (noHandData d r) ps) = False"
  by (simp_all add: updateFromHand_def noHandData_def)

lemma updateFromHand_detectedData:
  "targetCameraDistance (updateFromHand (detectedData d r) ps) =
     minCameraDistance ps + d * (maxCameraDistance ps - minCameraDistance ps)"
  "targetRotation (updateFromHand (detectedData d r) ps) = (r * Math_PI) / Fin 180"
  "isHandControlled (updateFromHand (detectedData d r) ps) = True"
  by (simp_all add: updateFromHand_def detectedData_def)

lemma detectionFrame_unfold:
  "detectionFrame res a =
     (case snd (onResults res (app_handTracker a)) of
        None \<Rightarrow> a\<lparr> app_handTracker := fst (onResults res (app_handTracker a)) \<rparr>
      | Some ev \<Rightarrow>
          \<lparr> app_handTracker = fst (onResults res (app_handTracker a)),
            app_particleSystem = updateFromHand ev (app_particleSystem a) \<rparr>)"
  by (cases "onResults res (app_handTracker a)")
     (simp add: detectionFrame_def onHandUpdate_def split: option.splits)

lemma step_minmax [simp]:
  "minCameraDistance (app_particleSystem (step e a)) = minCameraDistance (app_particleSystem a)"
  "maxCameraDistance (app_particleSystem (step e a)) = maxCameraDistance (app_particleSystem a)"
  by (cases e; simp add: detectionFrame_unfold update_def split: option.splits)+

lemma run_minmax [simp]:
  "minCameraDistance (app_particleSystem (run es a)) = minCameraDistance (app_particleSystem a)"
  "maxCameraDistance (app_particleSystem (run es a)) = maxCameraDistance (app_particleSystem a)"
  by (induction es arbitrary: a; simp)+

lemma newApp_minmax [simp]:
  "minCameraDistance (app_particleSystem newApp) = Fin 3"
  "maxCameraDistance (app_particleSystem newApp) = Fin 15"
  by (simp_all add: newApp_def init_def createParticleLayer_def Let_def newParticleSystem_def)

subsection \<open>The layers\<close>

lemma init_layerRefs:
  "layerRefs (init newParticleSystem) =
     [''outerShell'' \<mapsto> \<lparr> rotation_x = Fin 0, rotation_y = Fin 0, rotation_z = Fin 0,
                          material_opacity = Fin 0.6, material_size = Fin 0.03 \<rparr>,
      ''middleShell'' \<mapsto> \<lparr> rotation_x = Fin 0, rotation_y = Fin 0, rotation_z = Fin 0,
                           material_opacity = Fin 0.9, material_size = Fin 0.05 \<rparr>,
      ''innerShell'' \<mapsto> \<lparr> rotation_x = Fin 0, rotation_y = Fin 0, rotation_z = Fin 0,
                          material_opacity = Fin 1.0, material_size = Fin 0.08 \<rparr>]"
  by (simp add: init_def createParticleLayer_def Let_def newParticleSystem_def)

lemma animateParticles_layerRefs:
  assumes "layerRefs ps ''outerShell'' = Some p"
    and "layerRefs ps ''middleRing'' = None" "layerRefs ps ''innerCore'' = None"
  shows "layerRefs (animateParticles ps) =
     (layerRefs ps)(''outerShell'' \<mapsto> p\<lparr> rotation_z := rotation_z p + Fin 0.0003 \<rparr>)"
  using assms
  by (simp add: animateParticles_def Let_def handControlled_def autoBreathing_def
      animateOuterShell_def animateMiddleRing_def animateInnerCore_def)

lemma step_layerRefs:
  assumes "layerRefs (app_particleSystem a) ''outerShell'' = Some (p\<lparr> rotation_z := Fin z \<rparr>)"
    and "layerRefs (app_particleSystem a) ''middleRing'' = None"
    and "layerRefs (app_particleSystem a) ''innerCore'' = None"
  shows "layerRefs (app_particleSystem (step e a)) =
     (layerRefs (app_particleSystem a))(''outerShell'' \<mapsto>
        p\<lparr> rotation_z := Fin (z + (if e = RenderTick then 0.0003 else 0)) \<rparr>)"
proof (cases e)
  case (Detection res)
  have "(layerRefs (app_particleSystem a))(''outerShell'' \<mapsto> p\<lparr> rotation_z := Fin z \<rparr>)
      = layerRefs (app_particleSystem a)"
    using assms(1) by (simp add: fun_upd_idem)
  then show ?thesis
    using Detection by (simp add: detectionFrame_unfold split: option.splits)
next
  case RenderTick
  then show ?thesis
    using animateParticles_layerRefs[OF assms] by (simp add: update_def)
qed

lemma run_layerRefs:
  assumes "layerRefs (app_particleSystem a) ''outerShell'' = Some (p\<lparr> rotation_z := Fin z \<rparr>)"
    and "layerRefs (app_particleSystem a) ''middleRing'' = None"
    and "layerRefs (app_particleSystem a) ''innerCore'' = None"
  shows "layerRefs (app_particleSystem (run es a)) =
     (layerRefs (app_particleSystem a))(''outerShell'' \<mapsto>
        p\<lparr> rotation_z := Fin (z + real (count_list es RenderTick) * 0.0003) \<rparr>)"
  using assms
proof (induction es arbitrary: a z)
  case Nil
  then show ?case by (simp add: fun_upd_idem)
next
  case (Cons e es)
  let ?z = "z + (if e = RenderTick then 0.0003 else 0)"
  have s: "layerRefs (app_particleSystem (step e a)) =
     (layerRefs (app_particleSystem a))(''outerShell'' \<mapsto> p\<lparr> rotation_z := Fin ?z \<rparr>)"
    by (rule step_layerRefs[OF Cons.prems])
  have 1: "layerRefs (app_particleSystem (step e a)) ''outerShell'' = Some (p\<lparr> rotation_z := Fin ?z \<rparr>)"
    and 2: "layerRefs (app_particleSystem (step e a)) ''middleRing'' = None"
    and 3: "layerRefs (app_particleSystem (step e a)) ''innerCore'' = None"
    using Cons.prems(2,3) by (simp_all add: s)
  have eq: "?z + real (count_list es RenderTick) * 0.0003
      = z + real (count_list (e # es) RenderTick) * 0.0003"
    by (cases "e = RenderTick") (simp_all add: algebra_simps)
  have "layerRefs (app_particleSystem (run (e # es) a)) =
      layerRefs (app_particleSystem (run es (step e a)))"
    by simp
  also have "\<dots> = (layerRefs (app_particleSystem (step e a)))(''outerShell'' \<mapsto>
        p\<lparr> rotation_z := Fin (?z + real (count_list es RenderTick) * 0.0003) \<rparr>)"
    by (rule Cons.IH[OF 1 2 3])
  also have "\<dots> = (layerRefs (app_particleSystem a))(''outerShell'' \<mapsto>
        p\<lparr> rotation_z := Fin (?z + real (count_list es RenderTick) * 0.0003) \<rparr>)"
    unfolding s by (simp only: fun_upd_upd)
  finally show ?case unfolding eq .
qed

subsection \<open>Events\<close>

lemma step_quiet:
  assumes "quietEvent e" "\<not> hs_detected (handState (app_handTracker a))"
    and "\<not> isHandControlled (app_particleSystem a)"
  shows "app_handTracker (step e a) = app_handTracker a"
    and "\<not> isHandControlled (app_particleSystem (step e a))"
proof -
  have same: "(app_handTracker a)\<lparr> handState := (handState (app_handTracker a))\<lparr> hs_detected := False \<rparr> \<rparr>
      = app_handTracker a"
    using assms(2) by simp
  show "app_handTracker (step e a) = app_handTracker a"
    using assms(1) same
    by (cases e) (simp_all add: quietEvent_def detectionFrame_unfold onResults_noHand update_def)
  show "\<not> isHandControlled (app_particleSystem (step e a))"
    using assms(1,3)
    by (cases e) (simp_all add: quietEvent_def detectionFrame_unfold onResults_noHand update_def)
qed

lemma run_quiet:
  assumes "list_all quietEvent es" "\<not> hs_detected (handState (app_handTracker a))"
    and "\<not> isHandControlled (app_particleSystem a)"
  shows "app_handTracker (run es a) = app_handTracker a
    \<and> \<not> isHandControlled (app_particleSystem (run es a))"
  using assms
proof (induction es arbitrary: a)
  case Nil
  then show ?case by simp
next
  case (Cons e es)
  from Cons.prems have q: "quietEvent e" "list_all quietEvent es" by simp_all
  note s = step_quiet[OF q(1) Cons.prems(2,3)]
  have "\<not> hs_detected (handState (app_handTracker (step e a)))"
    using Cons.prems(2) by (simp add: s(1))
  from Cons.IH[OF q(2) this s(2)] show ?case by (simp add: s(1))
qed





lemma rawAngle_vertical:
  assumes "b < d"
  shows "rawAngle (Landmark (Fin a) (Fin b)) (Landmark (Fin a) (Fin d)) = Fin 90"
  using assms by (simp add: rawAngle_Fin atan2_def normalizeAngle_Fin trunc_def)

lemma nearFrame_event:
  "snd (onResults nearFrame newHandTracker) = Some (detectedData (Fin 0.35) (Fin 27))"
  by (simp add: nearFrame_def onResults_handFrame Let_def handSizeOf_vertical normalizeDistance_Fin
      newHandTracker_def detectedData_def rawAngle_vertical wrapDelta_Fin)


section \<open>Rounding to binary64\<close>

lemma pow2_powr: "pow2 k = 2 powr (of_int k)"
proof (cases "0 \<le> k")
  case True
  then have "2 powr (of_int k) = (2::real) powr real (nat k)" by simp
  also have "\<dots> = 2 ^ nat k" by (simp add: powr_realpow)
  finally show ?thesis using True by (simp add: pow2_def)
next
  case False
  then have "(of_int k :: real) = - real (nat (- k))" by simp
  then have "2 powr (of_int k) = inverse ((2::real) powr real (nat (- k)))"
    by (simp only: powr_minus)
  also have "\<dots> = 1 / 2 ^ nat (- k)" by (simp add: powr_realpow inverse_eq_divide)
  finally show ?thesis using False by (simp add: pow2_def)
qed

lemma pow2_pos [simp]: "0 < pow2 k"
  by (simp add: pow2_powr)

lemma pow2_nonzero [simp]: "pow2 k \<noteq> 0"
  using pow2_pos[of k] by linarith

lemma pow2_abs [simp]: "\<bar>pow2 k\<bar> = pow2 k"
  using pow2_pos[of k] by linarith

lemma pow2_nonneg [simp]: "0 \<le> pow2 k"
  using pow2_pos[of k] by linarith

lemma pow2_mono: "j \<le> k \<Longrightarrow> pow2 j \<le> pow2 k"
  by (simp add: pow2_powr)

lemma pow2_add: "pow2 (j + k) = pow2 j * pow2 k"
  by (simp add: pow2_powr powr_add)

lemma exponent_bounds:
  assumes "x \<noteq> 0"
  shows "pow2 (exponent x) \<le> \<bar>x\<bar>" "\<bar>x\<bar> < pow2 (exponent x + 1)"
proof -
  have "0 < \<bar>x\<bar>" using assms by simp
  from floor_log_eq_powr_iff[OF this, of 2 "exponent x"]
  show "pow2 (exponent x) \<le> \<bar>x\<bar>" "\<bar>x\<bar> < pow2 (exponent x + 1)"
    by (simp_all add: exponent_def pow2_powr)
qed

lemma exponentI:
  assumes "pow2 k \<le> \<bar>x\<bar>" "\<bar>x\<bar> < pow2 (k + 1)"
  shows "exponent x = k"
proof -
  have "0 < \<bar>x\<bar>" using assms(1) pow2_pos[of k] by linarith
  from floor_log_eq_powr_iff[OF this, of 2 k] assms show ?thesis
    by (simp add: exponent_def pow2_powr)
qed

lemma round64_eval:
  assumes "pow2 k \<le> \<bar>x\<bar>" "\<bar>x\<bar> < pow2 (k + 1)"
  shows "round64 x = pow2 (k - 52) * of_int (roundEven (x / pow2 (k - 52)))"
proof -
  have "x \<noteq> 0"
  proof
    assume "x = 0"
    with assms(1) have "pow2 k \<le> 0" by simp
    with pow2_pos[of k] show False by linarith
  qed
  then show ?thesis by (simp add: round64_def exponentI[OF assms] Let_def)
qed

lemma lit15: "round64 0.15 = 5404319552844595 / 2 ^ 55"
  by (subst round64_eval[where k = "- 3"]) (simp_all add: pow2_def roundEven_def Let_def)

lemma lit35: "round64 0.35 = 6305039478318694 / 2 ^ 54"
  by (subst round64_eval[where k = "- 2"]) (simp_all add: pow2_def roundEven_def Let_def)

lemma lit3: "round64 0.3 = 5404319552844595 / 2 ^ 54"
  by (subst round64_eval[where k = "- 2"]) (simp_all add: pow2_def roundEven_def Let_def)


lemma roundEven_floor: "\<lfloor>r\<rfloor> \<le> roundEven r"
  by (simp add: roundEven_def Let_def)

lemma roundEven_ge:
  assumes "of_int m \<le> r"
  shows "m \<le> roundEven r"
proof -
  from assms have "m \<le> \<lfloor>r\<rfloor>" by (simp add: le_floor_iff)
  with roundEven_floor[of r] show ?thesis by linarith
qed

lemma roundEven_le:
  assumes "r \<le> of_int m"
  shows "roundEven r \<le> m"
proof (cases "r = of_int \<lfloor>r\<rfloor>")
  case True
  then have z: "r - of_int \<lfloor>r\<rfloor> = 0" by simp
  have "roundEven r = \<lfloor>r\<rfloor>" unfolding roundEven_def Let_def z by simp
  moreover have "\<lfloor>r\<rfloor> \<le> m" using assms by (simp add: floor_le_iff)
  ultimately show ?thesis by simp
next
  case False
  have "of_int \<lfloor>r\<rfloor> \<le> r" by linarith
  with False have "of_int \<lfloor>r\<rfloor> < r" by linarith
  with assms have "\<lfloor>r\<rfloor> < m" by linarith
  moreover have "roundEven r \<le> \<lfloor>r\<rfloor> + 1" by (simp add: roundEven_def Let_def)
  ultimately show ?thesis by linarith
qed

lemma roundEven_error: "\<bar>of_int (roundEven r) - r\<bar> \<le> 1 / 2"
proof -
  define d where "d = r - of_int \<lfloor>r\<rfloor>"
  have d: "0 \<le> d" "d < 1" unfolding d_def by linarith+
  consider "d < 1 / 2" | "1 / 2 < d" | "d = 1 / 2" by linarith
  then show ?thesis
  proof cases
    case 1
    then have "roundEven r = \<lfloor>r\<rfloor>" by (simp add: roundEven_def Let_def d_def)
    then have "of_int (roundEven r) - r = - d" by (simp add: d_def)
    with 1 d show ?thesis by simp
  next
    case 2
    then have "roundEven r = \<lfloor>r\<rfloor> + 1" by (simp add: roundEven_def Let_def d_def)
    then have "of_int (roundEven r) - r = 1 - d" by (simp add: d_def)
    with 2 d show ?thesis by simp
  next
    case 3
    then have "roundEven r = \<lfloor>r\<rfloor> \<or> roundEven r = \<lfloor>r\<rfloor> + 1"
      by (simp add: roundEven_def Let_def d_def)
    then have "of_int (roundEven r) - r = - d \<or> of_int (roundEven r) - r = 1 - d"
      by (auto simp: d_def)
    with 3 show ?thesis by auto
  qed
qed

lemma round64_nonpos: "x \<le> 0 \<Longrightarrow> round64 x \<le> 0"
proof -
  assume x: "x \<le> 0"
  have "roundEven (x / pow2 k) \<le> 0" for k
    by (rule roundEven_le) (simp add: x divide_le_0_iff less_imp_le)
  then show ?thesis
    by (simp add: round64_def Let_def mult_le_0_iff less_imp_le)
qed

lemma round64_ge_pow2:
  assumes "pow2 k \<le> x"
  shows "pow2 k \<le> round64 x"
proof -
  have pos: "0 < x" using assms pow2_pos[of k] by linarith
  let ?e = "exponent x"
  have b: "pow2 ?e \<le> x" "x < pow2 (?e + 1)"
    using exponent_bounds[of x] pos by simp_all
  have "k \<le> ?e"
  proof (rule ccontr)
    assume "\<not> k \<le> ?e"
    then have "?e + 1 \<le> k" by simp
    from pow2_mono[OF this] b(2) assms show False by linarith
  qed
  have "pow2 ?e = pow2 (?e - 52) * 2 ^ 52"
    using pow2_add[of "?e - 52" 52] by (simp add: pow2_def)
  then have "of_int (2 ^ 52) \<le> x / pow2 (?e - 52)"
    using b(1) by (simp add: pos_le_divide_eq mult.commute)
  then have "2 ^ 52 \<le> roundEven (x / pow2 (?e - 52))" by (rule roundEven_ge)
  then have "(2::real) ^ 52 \<le> of_int (roundEven (x / pow2 (?e - 52)))"
    by (metis of_int_le_iff of_int_numeral of_int_power)
  then have "pow2 (?e - 52) * 2 ^ 52 \<le> round64 x"
    using pos by (simp add: round64_def Let_def)
  with \<open>pow2 ?e = pow2 (?e - 52) * 2 ^ 52\<close> pow2_mono[OF \<open>k \<le> ?e\<close>]
  show ?thesis by linarith
qed

lemma round64_ge_double:
  assumes "0 < d" "d = pow2 (exponent d - 52) * of_int m" "d \<le> x"
  shows "d \<le> round64 x"
proof -
  have pos: "0 < x" using assms(1,3) by linarith
  have bd: "pow2 (exponent d) \<le> d" "d < pow2 (exponent d + 1)"
    using exponent_bounds[of d] assms(1) by simp_all
  have bx: "pow2 (exponent x) \<le> x" "x < pow2 (exponent x + 1)"
    using exponent_bounds[of x] pos by simp_all
  have le: "exponent d \<le> exponent x"
  proof (rule ccontr)
    assume "\<not> exponent d \<le> exponent x"
    then have "exponent x + 1 \<le> exponent d" by simp
    from pow2_mono[OF this] bx(2) bd(1) assms(3) show False by linarith
  qed
  show ?thesis
  proof (cases "exponent x = exponent d")
    case True
    have "of_int m \<le> x / pow2 (exponent d - 52)"
      using assms(2,3) by (simp add: pos_le_divide_eq mult.commute)
    then have "m \<le> roundEven (x / pow2 (exponent d - 52))" by (rule roundEven_ge)
    then have "pow2 (exponent d - 52) * of_int m
        \<le> pow2 (exponent d - 52) * of_int (roundEven (x / pow2 (exponent d - 52)))"
      by simp
    then show ?thesis
      using pos assms(2) True by (simp add: round64_def Let_def)
  next
    case False
    with le have "exponent d + 1 \<le> exponent x" by simp
    from pow2_mono[OF this] round64_ge_pow2[OF bx(1)] bd(2) show ?thesis by linarith
  qed
qed

lemma round64_error: "\<bar>round64 x - x\<bar> \<le> \<bar>x\<bar> / 2 ^ 53"
proof (cases "x = 0")
  case True
  then show ?thesis by (simp add: round64_def)
next
  case False
  let ?q = "pow2 (exponent x - 52)"
  have q: "0 < ?q" by simp
  have "?q * (x / ?q) = x" using q by simp
  then have "round64 x - x = ?q * (of_int (roundEven (x / ?q)) - x / ?q)"
    using False by (simp add: round64_def Let_def right_diff_distrib)
  then have "\<bar>round64 x - x\<bar> = ?q * \<bar>of_int (roundEven (x / ?q)) - x / ?q\<bar>"
    using q by (simp add: abs_mult)
  also have "\<dots> \<le> ?q * (1 / 2)"
    using roundEven_error[of "x / ?q"] q by (intro mult_left_mono) simp_all
  also have "\<dots> = pow2 (exponent x) / 2 ^ 53"
    using pow2_add[of "exponent x - 52" 52] by (simp add: pow2_def)
  also have "\<dots> \<le> \<bar>x\<bar> / 2 ^ 53"
    using exponent_bounds(1)[OF False] by (simp add: divide_right_mono)
  finally show ?thesis .
qed


lemma round64_zero [simp]: "round64 0 = 0"
  by (simp add: round64_def)

lemma round64_one [simp]: "round64 1 = 1"
  by (subst round64_eval[where k = 0]) (simp_all add: pow2_def roundEven_def Let_def)

lemma span64: "round64 (round64 0.35 - round64 0.15) = 7205759403792793 / 2 ^ 55"
  unfolding lit15 lit35
  by (subst round64_eval[where k = "- 3"]) (simp_all add: pow2_def roundEven_def Let_def)

lemma span64_exact: "round64 0.35 - round64 0.15 = 7205759403792793 / 2 ^ 55"
  unfolding lit15 lit35 by simp

lemma normalizeDistance64_low: "normalizeDistance64 (round64 0.15) = 1"
  by (simp add: normalizeDistance64_def)

lemma normalizeDistance64_high: "normalizeDistance64 (round64 0.35) = 0"
  unfolding normalizeDistance64_def span64 by simp

lemma quarter_minus: "round64 (0.25 - round64 0.15) = 3602879701896397 / 2 ^ 55"
  unfolding lit15
  by (subst round64_eval[where k = "- 4"]) (simp_all add: pow2_def roundEven_def Let_def)

lemma quarter_ratio:
  "round64 ((3602879701896397 / 2 ^ 55) / (7205759403792793 / 2 ^ 55)) = 4503599627370497 / 2 ^ 53"
  by (subst round64_eval[where k = "- 1"]) (simp_all add: pow2_def roundEven_def Let_def)

lemma quarter_complement: "round64 (1 - 4503599627370497 / 2 ^ 53) = 4503599627370495 / 2 ^ 53"
  by (subst round64_eval[where k = "- 2"]) (simp_all add: pow2_def roundEven_def Let_def)

lemma normalizeDistance64_quarter: "normalizeDistance64 0.25 = 0.5 - 1 / 2 ^ 53"
  unfolding normalizeDistance64_def span64 quarter_minus quarter_ratio quarter_complement by simp

lemma smooth_difference: "round64 (0.5 - 1 / 2 ^ 53 - 0.5) = - (1 / 2 ^ 53)"
  by (subst round64_eval[where k = "- 53"]) (simp_all add: pow2_def roundEven_def Let_def)

lemma smooth_product:
  "round64 (- (1 / 2 ^ 53) * (5404319552844595 / 2 ^ 54)) = - (5404319552844595 / 2 ^ 107)"
  by (subst round64_eval[where k = "- 55"]) (simp_all add: pow2_def roundEven_def Let_def)

lemma smooth_sum: "round64 (0.5 + - (5404319552844595 / 2 ^ 107)) = 0.5 - 1 / 2 ^ 54"
  by (subst round64_eval[where k = "- 2"]) (simp_all add: pow2_def roundEven_def Let_def)

lemma smoothDistance64_quarter:
  "smoothDistance64 (0.5 - 1 / 2 ^ 53) 0.5 (round64 0.3) = 0.5 - 1 / 2 ^ 54"
  unfolding smoothDistance64_def lit3 smooth_difference smooth_product smooth_sum ..


lemma normalizeDistance64_range: "0 \<le> normalizeDistance64 h \<and> normalizeDistance64 h \<le> 1"
  by (simp add: normalizeDistance64_def)

lemma normalizeDistance64_below:
  assumes "h \<le> round64 0.15"
  shows "normalizeDistance64 h = 1"
proof -
  let ?D = "round64 (round64 0.35 - round64 0.15)"
  have D: "0 < ?D" unfolding span64 by simp
  have "round64 (h - round64 0.15) \<le> 0"
    using assms by (intro round64_nonpos) simp
  then have "round64 (h - round64 0.15) / ?D \<le> 0"
    using D by (simp add: divide_le_0_iff)
  then have "round64 (round64 (h - round64 0.15) / ?D) \<le> 0"
    by (rule round64_nonpos)
  then have "pow2 0 \<le> 1 - round64 (round64 (h - round64 0.15) / ?D)"
    by (simp add: pow2_def)
  from round64_ge_pow2[OF this]
  have "1 \<le> round64 (1 - round64 (round64 (h - round64 0.15) / ?D))"
    by (simp add: pow2_def)
  then show ?thesis
    by (simp add: normalizeDistance64_def)
qed

lemma normalizeDistance64_above:
  assumes "round64 0.35 \<le> h"
  shows "normalizeDistance64 h = 0"
proof -
  let ?D = "round64 (round64 0.35 - round64 0.15)"
  have Dv: "?D = 7205759403792793 / 2 ^ 55" by (rule span64)
  have D: "0 < ?D" unfolding span64 by simp
  have e: "exponent ?D = - 3"
    unfolding Dv by (rule exponentI) (simp_all add: pow2_def)
  have rep: "?D = pow2 (exponent ?D - 52) * of_int 7205759403792793"
    unfolding e unfolding Dv by (simp add: pow2_def)
  have "?D \<le> h - round64 0.15"
    using assms unfolding Dv using span64_exact by linarith
  from round64_ge_double[OF D rep this]
  have "1 \<le> round64 (h - round64 0.15) / ?D"
    using D by (simp add: pos_le_divide_eq)
  then have "pow2 0 \<le> round64 (h - round64 0.15) / ?D"
    by (simp add: pow2_def)
  from round64_ge_pow2[OF this]
  have "1 \<le> round64 (round64 (h - round64 0.15) / ?D)"
    by (simp add: pow2_def)
  then have "round64 (1 - round64 (round64 (h - round64 0.15) / ?D)) \<le> 0"
    by (intro round64_nonpos) simp
  then show ?thesis
    by (simp add: normalizeDistance64_def)
qed


lemma normalizeDistance64_between:
  assumes "round64 0.15 \<le> h" "h \<le> round64 0.35"
  shows "\<bar>normalizeDistance64 h - max 0 (min 1 (1 - (h - 0.15) / (0.35 - 0.15)))\<bar> \<le> 1 / 2 ^ 50"
proof -
  define D :: real where "D = 7205759403792793 / 2 ^ 55"
  define c :: real where "c = 5404319552844595 / 2 ^ 55"
  define u :: real where "u = 1 / 2 ^ 53"
  have Dv: "round64 (round64 0.35 - round64 0.15) = D" by (simp only: span64 D_def)
  have cv: "round64 0.15 = c" by (simp only: lit15 c_def)
  have "round64 0.35 - c = D" using span64_exact by (simp only: cv D_def)
  then have "h \<le> c + D" using assms(2) by linarith
  moreover have "c \<le> h" using assms(1) by (simp only: cv)
  ultimately have hc: "c \<le> h" "h \<le> c + D" by simp_all
  define r1 where "r1 = round64 (h - c)"
  define r2 where "r2 = round64 (r1 / D)"
  define r3 where "r3 = round64 (1 - r2)"
  have Dv': "round64 (round64 0.35 - c) = D" using Dv by (simp only: cv)
  have nd: "normalizeDistance64 h = max 0 (min 1 r3)"
    by (simp only: normalizeDistance64_def cv Dv' r1_def r2_def r3_def)
  have e1: "\<bar>r1 - (h - c)\<bar> \<le> D * u"
  proof -
    have "\<bar>r1 - (h - c)\<bar> \<le> \<bar>h - c\<bar> / 2 ^ 53" unfolding r1_def by (rule round64_error)
    also have "\<dots> \<le> D / 2 ^ 53" using hc by (simp add: divide_right_mono)
    finally show ?thesis by (simp add: u_def)
  qed
  have Dpos: "0 < D" by (simp add: D_def)
  have q: "0 \<le> (h - c) / D" "(h - c) / D \<le> 1"
    using hc Dpos by (simp_all add: pos_divide_le_eq)
  have e2a: "\<bar>r1 / D - (h - c) / D\<bar> \<le> u"
  proof -
    have "r1 / D - (h - c) / D = (r1 - (h - c)) / D" by (simp add: diff_divide_distrib)
    then have "\<bar>r1 / D - (h - c) / D\<bar> = \<bar>r1 - (h - c)\<bar> / D"
      using Dpos by (simp add: abs_divide)
    also have "\<dots> \<le> u" using e1 Dpos by (simp add: pos_divide_le_eq mult.commute)
    finally show ?thesis .
  qed
  have upos: "0 < u" "u \<le> 1 / 1000" by (simp_all add: u_def)
  have b2: "\<bar>r1 / D\<bar> \<le> 1 + u" using e2a q by linarith
  have e2: "\<bar>r2 - r1 / D\<bar> \<le> 2 * u"
  proof -
    have "\<bar>r2 - r1 / D\<bar> \<le> \<bar>r1 / D\<bar> / 2 ^ 53" unfolding r2_def by (rule round64_error)
    also have "\<dots> \<le> (1 + u) / 2 ^ 53" using b2 by (simp add: divide_right_mono)
    also have "\<dots> \<le> 2 * u" by (simp add: u_def)
    finally show ?thesis .
  qed
  have b3: "\<bar>1 - r2\<bar> \<le> 2" using e2 e2a q upos by linarith
  have e3: "\<bar>r3 - (1 - r2)\<bar> \<le> 2 * u"
  proof -
    have "\<bar>r3 - (1 - r2)\<bar> \<le> \<bar>1 - r2\<bar> / 2 ^ 53" unfolding r3_def by (rule round64_error)
    also have "\<dots> \<le> 2 / 2 ^ 53" using b3 by (simp add: divide_right_mono)
    finally show ?thesis by (simp add: u_def)
  qed
  have lin: "\<bar>(h - c) / D - (h - 0.15) / (0.35 - 0.15)\<bar> \<le> 2 * u"
  proof -
    define X where "X = 3 / (5 * 2 ^ 55) * (h - c)"
    define Y where "Y = D / (5 * 2 ^ 55)"
    have Y: "0 < Y" using Dpos by (simp add: Y_def)
    have X: "0 \<le> X" "X \<le> 3 * Y"
      using hc by (simp_all add: X_def Y_def)
    have num: "(0.35 - 0.15) * (h - c) - D * (h - 0.15) = X + Y"
      by (simp add: X_def Y_def D_def c_def field_simps)
    have den: "2 * u * (D * (0.35 - 0.15)) = 8 * Y"
      by (simp add: u_def Y_def)
    have "(h - c) / D - (h - 0.15) / (0.35 - 0.15)
        = ((0.35 - 0.15) * (h - c) - D * (h - 0.15)) / (D * (0.35 - 0.15))"
      using Dpos by (simp add: field_simps)
    then have "\<bar>(h - c) / D - (h - 0.15) / (0.35 - 0.15)\<bar>
        = \<bar>X + Y\<bar> / (D * (0.35 - 0.15))"
      using Dpos by (simp only: num abs_divide) simp
    also have "\<dots> \<le> (8 * Y) / (D * (0.35 - 0.15))"
      using X Y Dpos by (intro divide_right_mono) simp_all
    also have "\<dots> = 2 * u"
      using Dpos by (simp only: den[symmetric]) simp
    finally show ?thesis .
  qed
  have "\<bar>r3 - (1 - (h - 0.15) / (0.35 - 0.15))\<bar> \<le> 7 * u"
    using e2a e2 e3 lin by linarith
  then have "\<bar>max 0 (min 1 r3) - max 0 (min 1 (1 - (h - 0.15) / (0.35 - 0.15)))\<bar> \<le> 7 * u"
    by (auto simp: max_def min_def abs_if split: if_splits)
  also have "7 * u \<le> 1 / 2 ^ 50" by (simp add: u_def)
  finally show ?thesis by (simp only: nd)
qed

lemma normalizeDistance64_near_linear:
  "\<bar>normalizeDistance64 h - max 0 (min 1 (1 - (h - 0.15) / (0.35 - 0.15)))\<bar> \<le> 1 / 2 ^ 50"
proof -
  consider "h \<le> round64 0.15" | "round64 0.35 \<le> h"
    | "round64 0.15 \<le> h" "h \<le> round64 0.35" by linarith
  then show ?thesis
  proof cases
    case 1
    then have "h \<le> 0.15" unfolding lit15 by simp
    then have "1 \<le> 1 - (h - 0.15) / (0.35 - 0.15)" by simp
    then show ?thesis by (simp add: normalizeDistance64_below[OF 1])
  next
    case 2
    then have "1 - (h - 0.15) / (0.35 - 0.15) \<le> 1 / 2 ^ 50" unfolding lit35 by simp
    then show ?thesis
      by (auto simp: normalizeDistance64_above[OF 2] max_def min_def)
  next
    case 3
    then show ?thesis by (rule normalizeDistance64_between)
  qed
qed

section \<open>The claims\<close>

subsection \<open>C1\<close>

text \<open>
  C1: for every sequence of detected frames the smoothed rotation, in the state of the
  tracker and in the event, lies in \<open>(-180, 180]\<close>.  The tracker wraps the step but
  never the state: from the new tracker, the hand at 135 degrees for two frames and at
  -135 degrees for four frames leaves the smoothed rotation at 187.508385 degrees.
\<close>

theorem C1_rotation_leaves_range:
  "smoothedRotation (processFrames acrossBoundary newHandTracker) = Fin 187.508385
   \<and> rotation (getHandState (processFrames acrossBoundary newHandTracker)) = Fin 187.508385
   \<and> \<not> smoothedRotation (processFrames acrossBoundary newHandTracker) \<le> Fin 180"
proof -
  define t1 where "t1 = fst (onResults (pointing (- 0.25) 0.25) newHandTracker)"
  define t2 where "t2 = fst (onResults (pointing (- 0.25) 0.25) t1)"
  define t3 where "t3 = fst (onResults (pointing (- 0.25) (- 0.25)) t2)"
  define t4 where "t4 = fst (onResults (pointing (- 0.25) (- 0.25)) t3)"
  define t5 where "t5 = fst (onResults (pointing (- 0.25) (- 0.25)) t4)"
  define t6 where "t6 = fst (onResults (pointing (- 0.25) (- 0.25)) t5)"
  note defs = t1_def t2_def t3_def t4_def t5_def t6_def
  have f0: "smoothingFactor newHandTracker = Fin 0.3" by (simp add: newHandTracker_def)
  have f: "smoothingFactor t1 = Fin 0.3" "smoothingFactor t2 = Fin 0.3" "smoothingFactor t3 = Fin 0.3"
    "smoothingFactor t4 = Fin 0.3" "smoothingFactor t5 = Fin 0.3"
    by (simp_all add: defs f0)
  have r0: "smoothedRotation newHandTracker = Fin 0" by (simp add: newHandTracker_def)
  have r1: "smoothedRotation t1 = Fin 40.5"
    unfolding t1_def using rotation_pointing[OF r0 f0 rawAngle_values(4)] by simp
  have r2: "smoothedRotation t2 = Fin 68.85"
    unfolding t2_def using rotation_pointing[OF r1 f(1) rawAngle_values(4)] by simp
  have r3: "smoothedRotation t3 = Fin 115.695"
    unfolding t3_def using rotation_pointing[OF r2 f(2) rawAngle_values(6)] by simp
  have r4: "smoothedRotation t4 = Fin 148.4865"
    unfolding t4_def using rotation_pointing[OF r3 f(3) rawAngle_values(6)] by simp
  have r5: "smoothedRotation t5 = Fin 171.44055"
    unfolding t5_def using rotation_pointing[OF r4 f(4) rawAngle_values(6)] by simp
  have r6: "smoothedRotation t6 = Fin 187.508385"
    unfolding t6_def using rotation_pointing[OF r5 f(5) rawAngle_values(6)] by simp
  have "processFrames acrossBoundary newHandTracker = t6"
    by (simp add: acrossBoundary_def defs)
  with r6 show ?thesis by (simp add: getHandState_def)
qed

subsection \<open>C2\<close>

text \<open>
  C2: the smoothing takes the difference of the raw angle and the state, subtracts 360
  above 180 and adds 360 below -180, and adds 0.3 times the result to the state; so for
  every reachable state the corrected difference is at most 180 in absolute value, and
  raw angles that alternate between 179 and -179 degrees bring the state near 180
  without a passage through 0.  The arithmetic is as stated (\<open>smoothRotation_fields\<close>,
  \<open>wrapDelta_Fin\<close>), the bound holds while the raw angle and the state are at most
  540 apart (\<open>wrapDelta_bounded\<close>), and the alternation converges
  (\<open>oscillate_converges\<close>, \<open>oscillate_positive\<close>).  The state is never wrapped,
  though: a hand that turns on in one sense through the nine frames of \<open>fullTurn\<close>
  leaves it at 390.605304105, and the next frame, at the raw angle -180, is smoothed with
  the corrected difference -210.605304105.
\<close>

theorem C2_delta_exceeds_half_turn:
  "smoothedRotation (processFrames fullTurn newHandTracker) = Fin 390.605304105
   \<and> rawAngle (Landmark (Fin 0.5) (Fin 0.5)) (Landmark (Fin 0.25) (Fin 0.5)) = Fin (- 180)
   \<and> wrapDelta (Fin (- 180) - smoothedRotation (processFrames fullTurn newHandTracker))
       = Fin (- 210.605304105)
   \<and> smoothedRotation (processFrames (fullTurn @ [pointing (- 0.25) 0]) newHandTracker)
       = Fin (390.605304105 + (- 210.605304105) * 0.3)"
proof -
  define t1 where "t1 = fst (onResults (pointing (- 0.25) 0.25) newHandTracker)"
  define t2 where "t2 = fst (onResults (pointing (- 0.25) 0) t1)"
  define t3 where "t3 = fst (onResults (pointing (- 0.25) (- 0.25)) t2)"
  define t4 where "t4 = fst (onResults (pointing 0 (- 0.25)) t3)"
  define t5 where "t5 = fst (onResults (pointing 0.25 (- 0.25)) t4)"
  define t6 where "t6 = fst (onResults (pointing 0.25 0) t5)"
  define t7 where "t7 = fst (onResults (pointing 0.25 0.25) t6)"
  define t8 where "t8 = fst (onResults (pointing 0 0.25) t7)"
  define t9 where "t9 = fst (onResults (pointing (- 0.25) 0.25) t8)"
  note defs = t1_def t2_def t3_def t4_def t5_def t6_def t7_def t8_def t9_def
  have f0: "smoothingFactor newHandTracker = Fin 0.3" by (simp add: newHandTracker_def)
  have f: "smoothingFactor t1 = Fin 0.3" "smoothingFactor t2 = Fin 0.3" "smoothingFactor t3 = Fin 0.3"
    "smoothingFactor t4 = Fin 0.3" "smoothingFactor t5 = Fin 0.3" "smoothingFactor t6 = Fin 0.3"
    "smoothingFactor t7 = Fin 0.3" "smoothingFactor t8 = Fin 0.3" "smoothingFactor t9 = Fin 0.3"
    by (simp_all add: defs f0)
  have r0: "smoothedRotation newHandTracker = Fin 0" by (simp add: newHandTracker_def)
  have r1: "smoothedRotation t1 = Fin 40.5"
    unfolding t1_def using rotation_pointing[OF r0 f0 rawAngle_values(4)] by simp
  have r2: "smoothedRotation t2 = Fin 82.35"
    unfolding t2_def using rotation_pointing[OF r1 f(1) rawAngle_values(5)] by simp
  have r3: "smoothedRotation t3 = Fin 125.145"
    unfolding t3_def using rotation_pointing[OF r2 f(2) rawAngle_values(6)] by simp
  have r4: "smoothedRotation t4 = Fin 168.6015"
    unfolding t4_def using rotation_pointing[OF r3 f(3) rawAngle_values(7)] by simp
  have r5: "smoothedRotation t5 = Fin 212.52105"
    unfolding t5_def using rotation_pointing[OF r4 f(4) rawAngle_values(8)] by simp
  have r6: "smoothedRotation t6 = Fin 256.764735"
    unfolding t6_def using rotation_pointing[OF r5 f(5) rawAngle_values(1)] by simp
  have r7: "smoothedRotation t7 = Fin 301.2353145"
    unfolding t7_def using rotation_pointing[OF r6 f(6) rawAngle_values(2)] by simp
  have r8: "smoothedRotation t8 = Fin 345.86472015"
    unfolding t8_def using rotation_pointing[OF r7 f(7) rawAngle_values(3)] by simp
  have r9: "smoothedRotation t9 = Fin 390.605304105"
    unfolding t9_def using rotation_pointing[OF r8 f(8) rawAngle_values(4)] by simp
  have run: "processFrames fullTurn newHandTracker = t9"
    by (simp add: fullTurn_def defs)
  have a: "rawAngle (Landmark (Fin 0.5) (Fin 0.5)) (Landmark (Fin 0.25) (Fin 0.5)) = Fin (- 180)"
    using rawAngle_values(5) by simp
  have w: "wrapDelta (Fin (- 180) - smoothedRotation t9) = Fin (- 210.605304105)"
    by (simp add: r9 wrapDelta_Fin)
  have r10: "smoothedRotation (fst (onResults (pointing (- 0.25) 0) t9))
      = Fin (390.605304105 + (- 210.605304105) * 0.3)"
    using rotation_pointing[OF r9 f(9) rawAngle_values(5)] by simp
  show ?thesis
    using r9 a w r10 by (simp add: run processFrames_append)
qed

subsection \<open>C3\<close>




subsection \<open>C4\<close>

text \<open>
  C4: on the first event with \<open>detected\<close> false the particle system leaves the control
  of the hand at once, the targets are set to the camera distance 10 and the rotation 0,
  and every render tick from then on eases the camera distance and the rotation towards
  these values with the factor 0.08.  The flag and the targets are as stated.  The
  easing is in the hand-controlled branch of \<open>animateParticles\<close> only: after the loss
  of the hand \<open>cameraDistance\<close>, the \<open>z\<close> of the camera and \<open>sphereRotation\<close> stay
  where the hand left them through any number of ticks, and the rotation of the group
  grows by 0.002 a tick.  From the new application, a frame of a near hand and one tick
  bring the camera distance to 9.776; after a frame with no hand and two more ticks it
  is still 9.776.
\<close>

theorem C4_no_easing_after_hand_loss:
  "isHandControlled (updateFromHand (noHandData d r) ps) = False
   \<and> targetCameraDistance (updateFromHand (noHandData d r) ps) = Fin 10
   \<and> targetRotation (updateFromHand (noHandData d r) ps) = Fin 0
   \<and> cameraDistance (renderTicks n (updateFromHand (noHandData d r) ps)) = cameraDistance ps
   \<and> position_z (camera (renderTicks n (updateFromHand (noHandData d r) ps))) = position_z (camera ps)
   \<and> sphereRotation (renderTicks n (updateFromHand (noHandData d r) ps)) = sphereRotation ps
   \<and> group_rotation_y (particleGroup (animateParticles (updateFromHand (noHandData d r) ps)))
       = group_rotation_y (particleGroup ps) + Fin 0.002
   \<and> cameraDistance (app_particleSystem (run [Detection nearFrame, RenderTick] newApp)) = Fin 9.776
   \<and> cameraDistance (app_particleSystem
         (run [Detection nearFrame, RenderTick, Detection absentFrame, RenderTick, RenderTick] newApp))
       = Fin 9.776"
proof -
  have auto: "\<not> isHandControlled (updateFromHand (noHandData d r) ps)" for d r ps
    by (simp add: updateFromHand_noHandData)
  have g: "group_rotation_y (particleGroup (animateParticles (updateFromHand (noHandData d r) ps)))
       = group_rotation_y (particleGroup ps) + Fin 0.002"
    by (simp add: animateParticles_auto(4)[OF auto])
  define a1 where "a1 = detectionFrame nearFrame newApp"
  have a1: "isHandControlled (app_particleSystem a1)" "cameraDistance (app_particleSystem a1) = Fin 10"
    "targetCameraDistance (app_particleSystem a1) = Fin 7.2"
    by (simp_all add: a1_def detectionFrame_unfold nearFrame_event updateFromHand_detectedData
        newApp_def init_def createParticleLayer_def Let_def newParticleSystem_def)
  have a2: "cameraDistance (app_particleSystem (update a1)) = Fin 9.776"
    by (simp add: update_def animateParticles_hand(3)[OF a1(1)] a1(2,3))
  obtain ev where ev: "snd (onResults absentFrame (app_handTracker (update a1))) = Some ev" "\<not> detected ev"
    by (simp add: onResults_noHand noHand_def absentFrame_def)
  define a3 where "a3 = detectionFrame absentFrame (update a1)"
  have a3: "\<not> isHandControlled (app_particleSystem a3)"
    "cameraDistance (app_particleSystem a3) = Fin 9.776"
    using ev a2 by (simp_all add: a3_def detectionFrame_unfold)
  have "cameraDistance (renderTicks 2 (app_particleSystem a3)) = Fin 9.776"
    using renderTicks_auto[OF a3(1), of 2] a3(2) by simp
  then have "cameraDistance (app_particleSystem
         (run [Detection nearFrame, RenderTick, Detection absentFrame, RenderTick, RenderTick] newApp))
       = Fin 9.776"
    by (simp add: a1_def a3_def update_def numeral_2_eq_2)
  moreover have "cameraDistance (app_particleSystem (run [Detection nearFrame, RenderTick] newApp)) = Fin 9.776"
    using a2 by (simp add: a1_def)
  ultimately show ?thesis
    using renderTicks_auto[OF auto, of n d r ps] g
    by (simp add: updateFromHand_noHandData)
qed

subsection \<open>C5\<close>

text \<open>
  C5: on every render tick, under the hand or not, one layer spins at a constant rate,
  the opacity of the material of a second layer is its base times
  \<open>1 + sin (3 time) 0.05\<close> and the particle size of a third layer is its base times
  \<open>1 + sin (4 time) 0.1\<close>.  \<open>animateParticles\<close> tests the properties
  \<open>middleRing\<close> and \<open>innerCore\<close>, which the constructor sets to \<open>null\<close>, whereas
  \<open>createParticleLayer\<close> stores the layers under \<open>middleShell\<close> and \<open>innerShell\<close>:
  after any events the two properties are still \<open>null\<close>, the middle and the inner layer
  are as they were created (opacity 0.9, size 0.08, no rotation), and only the outer
  layer has turned, by 0.0003 for each render tick.
\<close>

theorem C5_ring_and_core_never_pulse:
  "layerRefs (app_particleSystem (run es newApp)) ''middleRing'' = None
   \<and> layerRefs (app_particleSystem (run es newApp)) ''innerCore'' = None
   \<and> layerRefs (app_particleSystem (run es newApp)) ''middleShell'' =
       Some \<lparr> rotation_x = Fin 0, rotation_y = Fin 0, rotation_z = Fin 0,
              material_opacity = Fin 0.9, material_size = Fin 0.05 \<rparr>
   \<and> layerRefs (app_particleSystem (run es newApp)) ''innerShell'' =
       Some \<lparr> rotation_x = Fin 0, rotation_y = Fin 0, rotation_z = Fin 0,
              material_opacity = Fin 1.0, material_size = Fin 0.08 \<rparr>
   \<and> layerRefs (app_particleSystem (run es newApp)) ''outerShell'' =
       Some \<lparr> rotation_x = Fin 0, rotation_y = Fin 0,
              rotation_z = Fin (real (count_list es RenderTick) * 0.0003),
              material_opacity = Fin 0.6, material_size = Fin 0.03 \<rparr>"
proof -
  let ?p = "\<lparr> rotation_x = Fin 0, rotation_y = Fin 0, rotation_z = Fin 0,
             material_opacity = Fin 0.6, material_size = Fin 0.03 \<rparr>"
  have 1: "layerRefs (app_particleSystem newApp) ''outerShell'' = Some (?p\<lparr> rotation_z := Fin 0 \<rparr>)"
    and 2: "layerRefs (app_particleSystem newApp) ''middleRing'' = None"
    and 3: "layerRefs (app_particleSystem newApp) ''innerCore'' = None"
    by (simp_all add: newApp_def init_layerRefs)
  show ?thesis
    using run_layerRefs[OF 1 2 3, of es] by (simp add: newApp_def init_layerRefs)
qed

subsection \<open>C6\<close>



subsection \<open>C7\<close>

text \<open>
  C7: for an event of a detected hand with the distance \<open>d\<close> the target camera
  distance is \<open>3 + d (15 - 3)\<close>, so 3 for 0, 9 for 0.5 and 15 for 1, and the target
  rotation is the rotation of the event times \<open>\<pi> / 180\<close>; in every state that the
  application reaches.
\<close>

theorem C7_target_mapping:
  "targetCameraDistance (updateFromHand (detectedData d r) (app_particleSystem (run es newApp)))
     = Fin 3 + d * (Fin 15 - Fin 3)
   \<and> targetRotation (updateFromHand (detectedData d r) (app_particleSystem (run es newApp)))
     = (r * Math_PI) / Fin 180
   \<and> targetCameraDistance (updateFromHand (detectedData (Fin x) (Fin y)) (app_particleSystem (run es newApp)))
     = Fin (3 + x * (15 - 3))
   \<and> targetRotation (updateFromHand (detectedData (Fin x) (Fin y)) (app_particleSystem (run es newApp)))
     = Fin (y * pi / 180)
   \<and> targetCameraDistance (updateFromHand (detectedData (Fin 0) r) (app_particleSystem (run es newApp)))
     = Fin 3
   \<and> targetCameraDistance (updateFromHand (detectedData (Fin 0.5) r) (app_particleSystem (run es newApp)))
     = Fin 9
   \<and> targetCameraDistance (updateFromHand (detectedData (Fin 1) r) (app_particleSystem (run es newApp)))
     = Fin 15
   \<and> isHandControlled (updateFromHand (detectedData d r) (app_particleSystem (run es newApp)))"
  by (simp add: updateFromHand_detectedData Math_PI_def)

subsection \<open>C8\<close>

text \<open>
  C8: before the smoothing the distance is the clamped linear map of the hand size from
  \<open>[0.15, 0.35]\<close> onto \<open>[1, 0]\<close>: 1 at hand size 0.15, 0 at 0.35 and 0.5 at 0.25, so
  that with the smoothing factor 0.3 and the state 0.5 the state stays 0.5 exactly.  In
  exact arithmetic this is so (\<open>normalizeDistance_cases\<close>).  In the doubles of the
  program the two ends are exact and the middle is not.  What holds is: the distance is
  1 at the hand size 0.15 and below it, 0 at 0.35 and above it, and everywhere within
  \<open>2 ^ -50\<close> of the clamped linear map; at the hand size 0.25 it is
  \<open>0.5 - 2 ^ -53\<close> (0.4999999999999999), and with the smoothing factor 0.3 the state
  0.5 becomes \<open>0.5 - 2 ^ -54\<close> (0.49999999999999994).
\<close>

theorem C8_distance_mapping_binary64:
  "normalizeDistance64 (round64 0.15) = 1
   \<and> normalizeDistance64 (round64 0.35) = 0
   \<and> normalizeDistance64 (min h (round64 0.15)) = 1
   \<and> normalizeDistance64 (max h (round64 0.35)) = 0
   \<and> \<bar>normalizeDistance64 h - max 0 (min 1 (1 - (h - 0.15) / (0.35 - 0.15)))\<bar> \<le> 1 / 2 ^ 50
   \<and> normalizeDistance64 0.25 = 0.5 - 1 / 2 ^ 53
   \<and> smoothDistance64 (normalizeDistance64 0.25) 0.5 (round64 0.3) = 0.5 - 1 / 2 ^ 54"
proof -
  have "normalizeDistance64 (min h (round64 0.15)) = 1"
    by (rule normalizeDistance64_below) simp
  moreover have "normalizeDistance64 (max h (round64 0.35)) = 0"
    by (rule normalizeDistance64_above) simp
  moreover have "smoothDistance64 (normalizeDistance64 0.25) 0.5 (round64 0.3) = 0.5 - 1 / 2 ^ 54"
    by (simp only: normalizeDistance64_quarter smoothDistance64_quarter)
  ultimately show ?thesis
    using normalizeDistance64_low normalizeDistance64_high normalizeDistance64_near_linear[of h]
      normalizeDistance64_quarter
    by blast
qed

text \<open>
  The hand size 0.25 does not give the distance 0.5, and the state 0.5 does not stay.
\<close>

theorem C8_counterexample:
  "normalizeDistance64 0.25 \<noteq> 0.5
   \<and> smoothDistance64 (normalizeDistance64 0.25) 0.5 (round64 0.3) \<noteq> 0.5"
  unfolding normalizeDistance64_quarter smoothDistance64_quarter by simp

subsection \<open>C9\<close>

text \<open>
  C9: through a run of frames with no hand, with render ticks in between, the tracker
  changes in nothing but the detected flag: the smoothed distance and rotation, and the
  values that the events carry, are the same from frame to frame, and the particle system
  is not under the control of the hand.
\<close>

theorem C9_no_hand_frames_hold_the_signal:
  assumes "noHand res" "list_all quietEvent es"
  shows "app_handTracker (run (Detection res # es) a) =
      (app_handTracker a)\<lparr> handState := (handState (app_handTracker a))\<lparr> hs_detected := False \<rparr> \<rparr>
    \<and> smoothedDistance (app_handTracker (run (Detection res # es) a)) = smoothedDistance (app_handTracker a)
    \<and> smoothedRotation (app_handTracker (run (Detection res # es) a)) = smoothedRotation (app_handTracker a)
    \<and> \<not> isHandControlled (app_particleSystem (run (Detection res # es) a))
    \<and> snd (onResults res (app_handTracker a)) =
        Some (noHandData (smoothedDistance (app_handTracker a)) (smoothedRotation (app_handTracker a)))"
proof -
  let ?t = "(app_handTracker a)\<lparr> handState := (handState (app_handTracker a))\<lparr> hs_detected := False \<rparr> \<rparr>"
  have t: "app_handTracker (detectionFrame res a) = ?t"
    and h: "\<not> isHandControlled (app_particleSystem (detectionFrame res a))"
    by (simp_all add: detectionFrame_unfold onResults_noHand[OF assms(1)])
  have d: "\<not> hs_detected (handState (app_handTracker (detectionFrame res a)))"
    by (simp add: t)
  from run_quiet[OF assms(2) d h] t
  have "app_handTracker (run (Detection res # es) a) = ?t"
    and "\<not> isHandControlled (app_particleSystem (run (Detection res # es) a))"
    by simp_all
  then show ?thesis
    by (simp add: onResults_noHand[OF assms(1)])
qed

theorem C9_no_hand_frames_hold_the_signal_witness:
  "noHand absentFrame \<and> list_all quietEvent [RenderTick, Detection emptyFrame, RenderTick]
   \<and> smoothedDistance (app_handTracker
        (run (Detection absentFrame # [RenderTick, Detection emptyFrame, RenderTick])
          (detectionFrame nearFrame newApp)))
      = smoothedDistance (app_handTracker (detectionFrame nearFrame newApp))
   \<and> smoothedRotation (app_handTracker
        (run (Detection absentFrame # [RenderTick, Detection emptyFrame, RenderTick])
          (detectionFrame nearFrame newApp)))
      = smoothedRotation (app_handTracker (detectionFrame nearFrame newApp))
   \<and> \<not> isHandControlled (app_particleSystem
        (run (Detection absentFrame # [RenderTick, Detection emptyFrame, RenderTick])
          (detectionFrame nearFrame newApp)))"
proof -
  have h: "noHand absentFrame" "list_all quietEvent [RenderTick, Detection emptyFrame, RenderTick]"
    by (simp_all add: noHand_def quietEvent_def absentFrame_def emptyFrame_def)
  show ?thesis
    using h C9_no_hand_frames_hold_the_signal[OF h, of "detectionFrame nearFrame newApp"]
    by blast
qed

subsection \<open>C10\<close>




end
